theory Spec2Isabelle
  imports Complex_Main "HOL-Library.AList"
begin

section \<open>The radio widget adapter (MaterialRadio)\<close>

text \<open>
  The widget keeps the CSS classes of a container element in step with the state of
  the native radio control inside it. The embedding follows the source one function
  at a time. A private name of the source ends in an underscore
  (\<^verbatim>\<open>onChange_\<close>); here the underscore is written as a prime (\<open>onChange'\<close>).
\<close>

subsection \<open>Constants\<close>

text \<open>\<^verbatim>\<open>Constant_.TINY_TIMEOUT\<close>, the delay handed to \<^verbatim>\<open>setTimeout\<close>, in milliseconds.\<close>

definition TINY_TIMEOUT :: rat where
  "TINY_TIMEOUT = 1 / 1000"

text \<open>\<^verbatim>\<open>CssClasses_\<close>, in the order of the source.\<close>

definition IS_FOCUSED :: string where
  "IS_FOCUSED = ''is-focused''"

definition IS_DISABLED :: string where
  "IS_DISABLED = ''is-disabled''"

definition IS_CHECKED :: string where
  "IS_CHECKED = ''is-checked''"

definition IS_UPGRADED :: string where
  "IS_UPGRADED = ''is-upgraded''"

definition JS_RADIO :: string where
  "JS_RADIO = ''mdl-js-radio''"

definition RADIO_BTN :: string where
  "RADIO_BTN = ''mdl-radio__button''"

definition RADIO_OUTER_CIRCLE :: string where
  "RADIO_OUTER_CIRCLE = ''mdl-radio__outer-circle''"

definition RADIO_INNER_CIRCLE :: string where
  "RADIO_INNER_CIRCLE = ''mdl-radio__inner-circle''"

definition RIPPLE_EFFECT :: string where
  "RIPPLE_EFFECT = ''mdl-js-ripple-effect''"

definition RIPPLE_IGNORE_EVENTS :: string where
  "RIPPLE_IGNORE_EVENTS = ''mdl-js-ripple-effect--ignore-events''"

definition RIPPLE_CONTAINER :: string where
  "RIPPLE_CONTAINER = ''mdl-radio__ripple-container''"

definition RIPPLE_CENTER :: string where
  "RIPPLE_CENTER = ''mdl-ripple--center''"

definition RIPPLE :: string where
  "RIPPLE = ''mdl-ripple''"

subsection \<open>The page\<close>

text \<open>
  A dereference of \<^verbatim>\<open>null\<close> or \<^verbatim>\<open>undefined\<close> throws; nothing in the widget
  catches it, so the method that meets one ends there.
\<close>

datatype js_error = TypeError

text \<open>
  The four methods that \<^verbatim>\<open>init\<close> binds to the instance and registers as listeners.
\<close>

datatype handler = OnChange | OnFocus | OnBlur | OnMouseup

text \<open>
  A \<^verbatim>\<open>span\<close> made by \<^verbatim>\<open>document.createElement\<close>: its class list, its listeners
  (event type and bound method) and its children.
\<close>

datatype span = Span (span_classes: "string list")
  (span_listeners: "(string \<times> handler) list") (span_children: "span list")

text \<open>
  The native control: the \<^verbatim>\<open>name\<close> attribute as \<^verbatim>\<open>getAttribute('name')\<close>
  returns it (\<open>None\<close> is \<^verbatim>\<open>null\<close>, the attribute is absent), the properties
  \<^verbatim>\<open>checked\<close> and \<^verbatim>\<open>disabled\<close>, and its listeners. Two more fields hold what the
  browser keeps about a radio input and the widget relies on without reading it: the
  form that owns the control, which with the name decides the radio button group, and
  whether the control has the keyboard focus, which \<^verbatim>\<open>blur()\<close> takes away.
\<close>

record control =
  name_attr :: "string option"
  form_owner :: "nat option"
  checked :: bool
  disabled :: bool
  has_focus :: bool
  ctl_listeners :: "(string \<times> handler) list"

text \<open>
  A container element: its \<^verbatim>\<open>classList\<close>, the descendant that
  \<^verbatim>\<open>querySelector('.mdl-radio__button')\<close> finds (\<open>None\<close> when there is none),
  the child nodes appended to it, its own listeners, and whether its property
  \<^verbatim>\<open>'MaterialRadio'\<close> is defined, that is, whether the component registry has
  stored the widget instance built on this element there.

  The instance itself is not a separate value: its \<^verbatim>\<open>element_\<close> is the element and
  its \<^verbatim>\<open>btnElement_\<close> is the control of the element, as \<^verbatim>\<open>init\<close> sets them.
\<close>

record element =
  classList :: "string set"
  button :: "control option"
  children :: "span list"
  listeners :: "(string \<times> handler) list"
  MaterialRadio :: bool

text \<open>
  The page: its container elements in document order, and the calls that
  \<^verbatim>\<open>setTimeout\<close> has queued and the event loop has not run yet. The only callback
  the widget ever queues is \<^verbatim>\<open>this.btnElement_.blur()\<close>, so a queued call is its
  delay and the index of the instance it is bound to.
\<close>

record page =
  elems :: "element list"
  timeouts :: "(rat \<times> nat) list"

subsection \<open>classList\<close>

definition classList_add :: "string \<Rightarrow> string set \<Rightarrow> string set" where
  "classList_add c cs = insert c cs"

definition classList_remove :: "string \<Rightarrow> string set \<Rightarrow> string set" where
  "classList_remove c cs = cs - {c}"

definition classList_contains :: "string \<Rightarrow> string set \<Rightarrow> bool" where
  "classList_contains c cs = (c \<in> cs)"

subsection \<open>Methods that touch one instance\<close>

text \<open>\<^verbatim>\<open>onFocus_\<close> and \<^verbatim>\<open>onBlur_\<close>.\<close>

definition onFocus' :: "element \<Rightarrow> element" where
  "onFocus' e = e\<lparr>classList := classList_add IS_FOCUSED (classList e)\<rparr>"

definition onBlur' :: "element \<Rightarrow> element" where
  "onBlur' e = e\<lparr>classList := classList_remove IS_FOCUSED (classList e)\<rparr>"

text \<open>\<^verbatim>\<open>checkDisabled\<close> and \<^verbatim>\<open>checkToggleState\<close> read a property of \<^verbatim>\<open>btnElement_\<close>.\<close>

definition checkDisabled :: "element \<Rightarrow> js_error + element" where
  "checkDisabled e =
     (case button e of
        None \<Rightarrow> Inl TypeError
      | Some b \<Rightarrow>
          if disabled b
          then Inr (e\<lparr>classList := classList_add IS_DISABLED (classList e)\<rparr>)
          else Inr (e\<lparr>classList := classList_remove IS_DISABLED (classList e)\<rparr>))"

definition checkToggleState :: "element \<Rightarrow> js_error + element" where
  "checkToggleState e =
     (case button e of
        None \<Rightarrow> Inl TypeError
      | Some b \<Rightarrow>
          if checked b
          then Inr (e\<lparr>classList := classList_add IS_CHECKED (classList e)\<rparr>)
          else Inr (e\<lparr>classList := classList_remove IS_CHECKED (classList e)\<rparr>))"

text \<open>\<^verbatim>\<open>updateClasses_\<close>: the two checks, one after the other.\<close>

definition updateClasses' :: "element \<Rightarrow> js_error + element" where
  "updateClasses' e =
     (case checkDisabled e of
        Inl err \<Rightarrow> Inl err
      | Inr e1 \<Rightarrow> checkToggleState e1)"

text \<open>\<^verbatim>\<open>disable\<close> and \<^verbatim>\<open>enable\<close>: write the property, then \<^verbatim>\<open>updateClasses_\<close>.\<close>

definition disable :: "element \<Rightarrow> js_error + element" where
  "disable e =
     (case button e of
        None \<Rightarrow> Inl TypeError
      | Some b \<Rightarrow> updateClasses' (e\<lparr>button := Some (b\<lparr>disabled := True\<rparr>)\<rparr>))"

definition enable :: "element \<Rightarrow> js_error + element" where
  "enable e =
     (case button e of
        None \<Rightarrow> Inl TypeError
      | Some b \<Rightarrow> updateClasses' (e\<lparr>button := Some (b\<lparr>disabled := False\<rparr>)\<rparr>))"

subsection \<open>Methods that look at the whole page\<close>

text \<open>
  An instance is named by the index of its element in the page. \<^verbatim>\<open>this.element_\<close>
  of an instance built on no element (\<^verbatim>\<open>new MaterialRadio(null)\<close>) is absent, and
  so is its \<^verbatim>\<open>btnElement_\<close>; an index past the end of the page stands for it.
\<close>

definition element' :: "element list \<Rightarrow> nat \<Rightarrow> element option" where
  "element' es i = (if i < length es then Some (es ! i) else None)"

definition btnElement' :: "element list \<Rightarrow> nat \<Rightarrow> control option" where
  "btnElement' es i = (case element' es i of None \<Rightarrow> None | Some e \<Rightarrow> button e)"

text \<open>A method of instance \<open>i\<close> that touches its own element only, run on the page.\<close>

definition on_instance :: "nat \<Rightarrow> (element \<Rightarrow> js_error + element) \<Rightarrow> page \<Rightarrow> js_error + page" where
  "on_instance i m p =
     (case element' (elems p) i of
        None \<Rightarrow> Inl TypeError
      | Some e \<Rightarrow>
          (case m e of
             Inl err \<Rightarrow> Inl err
           | Inr e' \<Rightarrow> Inr (p\<lparr>elems := (elems p)[i := e']\<rparr>)))"

text \<open>
  \<^verbatim>\<open>document.getElementsByClassName(c)\<close>: the elements that carry class \<open>c\<close>, in
  document order, as indices into the page.
\<close>

definition getElementsByClassName :: "string \<Rightarrow> element list \<Rightarrow> nat list" where
  "getElementsByClassName c es =
     filter (\<lambda>j. classList_contains c (classList (es ! j))) [0..<length es]"

text \<open>
  The loop of \<^verbatim>\<open>onChange_\<close> over \<^verbatim>\<open>radios\<close>. Each round reads the control of
  \<^verbatim>\<open>radios[i]\<close>, then the control of \<^verbatim>\<open>this\<close>, compares the two \<^verbatim>\<open>name\<close>
  attributes with \<^verbatim>\<open>===\<close> (so \<^verbatim>\<open>null\<close> equals \<^verbatim>\<open>null\<close>), and calls
  \<^verbatim>\<open>updateClasses_\<close> of the instance stored on \<^verbatim>\<open>radios[i]\<close> when there is one.
  The collection is live in the browser; \<^verbatim>\<open>updateClasses_\<close> never adds or removes
  the class it is selected by, so it is computed once.
\<close>

fun onChange_loop :: "nat \<Rightarrow> nat list \<Rightarrow> element list \<Rightarrow> js_error + element list" where
  "onChange_loop i [] es = Inr es"
| "onChange_loop i (j # js) es =
     (case button (es ! j) of
        None \<Rightarrow> Inl TypeError
      | Some b \<Rightarrow>
          (case btnElement' es i of
             None \<Rightarrow> Inl TypeError
           | Some tb \<Rightarrow>
               if name_attr b = name_attr tb then
                 if MaterialRadio (es ! j) then
                   (case updateClasses' (es ! j) of
                      Inl err \<Rightarrow> Inl err
                    | Inr e' \<Rightarrow> onChange_loop i js (es[j := e']))
                 else onChange_loop i js es
               else onChange_loop i js es))"

definition onChange' :: "nat \<Rightarrow> page \<Rightarrow> js_error + page" where
  "onChange' i p =
     (case onChange_loop i (getElementsByClassName JS_RADIO (elems p)) (elems p) of
        Inl err \<Rightarrow> Inl err
      | Inr es \<Rightarrow> Inr (p\<lparr>elems := es\<rparr>))"

text \<open>
  \<^verbatim>\<open>blur_\<close> hands \<^verbatim>\<open>this.btnElement_.blur()\<close> to \<^verbatim>\<open>setTimeout\<close> and returns;
  the identifier \<^verbatim>\<open>setTimeout\<close> returns is dropped. \<^verbatim>\<open>onMouseup_\<close> calls it.
\<close>

definition blur' :: "nat \<Rightarrow> page \<Rightarrow> page" where
  "blur' i p = p\<lparr>timeouts := timeouts p @ [(TINY_TIMEOUT, i)]\<rparr>"

definition onMouseup' :: "nat \<Rightarrow> page \<Rightarrow> page" where
  "onMouseup' i p = blur' i p"

subsection \<open>Radio button groups\<close>

text \<open>
  The widget never unchecks a control itself. The comment in \<^verbatim>\<open>onChange_\<close> says
  what it relies on: the other radio buttons change with no change event of their own.
  That is the radio button group of HTML: two radio inputs are in one group when they
  have the same form owner and both have a \<^verbatim>\<open>name\<close> attribute, not empty, of the same
  value; setting the checkedness of one to true sets it to false for the others of its
  group. All controls of the page are taken to be radio inputs.
\<close>

definition same_radio_group :: "control \<Rightarrow> control \<Rightarrow> bool" where
  "same_radio_group a b =
     (form_owner a = form_owner b \<and>
      (case name_attr a of
         None \<Rightarrow> False
       | Some n \<Rightarrow> n \<noteq> [] \<and> name_attr b = Some n))"

text \<open>
  The assignment \<^verbatim>\<open>btnElement_.checked = v\<close> on the control \<open>c\<close> of element \<open>i\<close>,
  as it reaches element \<open>j\<close>.
\<close>

definition assign_checked :: "bool \<Rightarrow> nat \<Rightarrow> control \<Rightarrow> nat \<Rightarrow> element \<Rightarrow> element" where
  "assign_checked v i c j e =
     (case button e of
        None \<Rightarrow> e
      | Some b \<Rightarrow>
          if j = i then e\<lparr>button := Some (b\<lparr>checked := v\<rparr>)\<rparr>
          else if v \<and> same_radio_group c b then e\<lparr>button := Some (b\<lparr>checked := False\<rparr>)\<rparr>
          else e)"

definition set_checked :: "nat \<Rightarrow> bool \<Rightarrow> element list \<Rightarrow> element list" where
  "set_checked i v es =
     (case btnElement' es i of
        None \<Rightarrow> es
      | Some c \<Rightarrow> map (\<lambda>j. assign_checked v i c j (es ! j)) [0..<length es])"

subsection \<open>Checking and unchecking\<close>

text \<open>\<^verbatim>\<open>check\<close> and \<^verbatim>\<open>uncheck\<close>: write the property, then \<^verbatim>\<open>onChange_(null)\<close>.\<close>

definition check :: "nat \<Rightarrow> page \<Rightarrow> js_error + page" where
  "check i p =
     (case btnElement' (elems p) i of
        None \<Rightarrow> Inl TypeError
      | Some b \<Rightarrow> onChange' i (p\<lparr>elems := set_checked i True (elems p)\<rparr>))"

definition uncheck :: "nat \<Rightarrow> page \<Rightarrow> js_error + page" where
  "uncheck i p =
     (case btnElement' (elems p) i of
        None \<Rightarrow> Inl TypeError
      | Some b \<Rightarrow> onChange' i (p\<lparr>elems := set_checked i False (elems p)\<rparr>))"

subsection \<open>Events\<close>

text \<open>
  Calling a bound method of instance \<open>i\<close>, and running the listeners of one event in
  the order they were added. The browser reports an exception of a listener and goes
  on to the next listener; here the exception ends the run, which is the same for an
  event with one listener, as every event has after one \<^verbatim>\<open>init\<close>.
\<close>

fun call :: "handler \<Rightarrow> nat \<Rightarrow> page \<Rightarrow> js_error + page" where
  "call OnChange i p = onChange' i p"
| "call OnFocus i p = on_instance i (\<lambda>e. Inr (onFocus' e)) p"
| "call OnBlur i p = on_instance i (\<lambda>e. Inr (onBlur' e)) p"
| "call OnMouseup i p = Inr (onMouseup' i p)"

fun run_listeners :: "handler list \<Rightarrow> nat \<Rightarrow> page \<Rightarrow> js_error + page" where
  "run_listeners [] i p = Inr p"
| "run_listeners (h # hs) i p =
     (case call h i p of
        Inl err \<Rightarrow> Inl err
      | Inr p' \<Rightarrow> run_listeners hs i p')"

definition listeners_for :: "string \<Rightarrow> (string \<times> handler) list \<Rightarrow> handler list" where
  "listeners_for ev ls = map snd (filter (\<lambda>l. fst l = ev) ls)"

text \<open>An event at the control of element \<open>i\<close>, and one at the element itself.\<close>

definition dispatch_button :: "string \<Rightarrow> nat \<Rightarrow> page \<Rightarrow> js_error + page" where
  "dispatch_button ev i p =
     (case btnElement' (elems p) i of
        None \<Rightarrow> Inr p
      | Some b \<Rightarrow> run_listeners (listeners_for ev (ctl_listeners b)) i p)"

definition dispatch_element :: "string \<Rightarrow> nat \<Rightarrow> page \<Rightarrow> js_error + page" where
  "dispatch_element ev i p =
     (case element' (elems p) i of
        None \<Rightarrow> Inr p
      | Some e \<Rightarrow> run_listeners (listeners_for ev (listeners e)) i p)"

text \<open>
  An event at the \<open>k\<close>-th appended child of element \<open>i\<close> (the ripple container is
  one): the listeners of the child run, then the event bubbles to the element.
\<close>

definition dispatch_child :: "string \<Rightarrow> nat \<Rightarrow> nat \<Rightarrow> page \<Rightarrow> js_error + page" where
  "dispatch_child ev i k p =
     (case element' (elems p) i of
        None \<Rightarrow> Inr p
      | Some e \<Rightarrow>
          if k < length (children e) then
            (case run_listeners (listeners_for ev (span_listeners (children e ! k))) i p of
               Inl err \<Rightarrow> Inl err
             | Inr p' \<Rightarrow> dispatch_element ev i p')
          else Inr p)"

text \<open>
  The user picks the radio of element \<open>i\<close> (or anything else sets its checkedness to
  \<open>v\<close> and reports it): the browser changes the checkedness, then fires
  \<^verbatim>\<open>change\<close> at the control.
\<close>

definition change_event :: "nat \<Rightarrow> bool \<Rightarrow> page \<Rightarrow> js_error + page" where
  "change_event i v p = dispatch_button ''change'' i (p\<lparr>elems := set_checked i v (elems p)\<rparr>)"

text \<open>The control of element \<open>i\<close> takes the focus: \<^verbatim>\<open>focus\<close> fires at it.\<close>

definition set_focus :: "bool \<Rightarrow> element \<Rightarrow> element" where
  "set_focus v e =
     (case button e of
        None \<Rightarrow> e
      | Some b \<Rightarrow> e\<lparr>button := Some (b\<lparr>has_focus := v\<rparr>)\<rparr>)"

definition focus_event :: "nat \<Rightarrow> page \<Rightarrow> js_error + page" where
  "focus_event i p =
     (case element' (elems p) i of
        None \<Rightarrow> Inr p
      | Some e \<Rightarrow> dispatch_button ''focus'' i (p\<lparr>elems := (elems p)[i := set_focus True e]\<rparr>))"

text \<open>The control of element \<open>i\<close> loses the focus: \<^verbatim>\<open>blur\<close> fires at it.\<close>

definition blur_event :: "nat \<Rightarrow> page \<Rightarrow> js_error + page" where
  "blur_event i p =
     (case element' (elems p) i of
        None \<Rightarrow> Inr p
      | Some e \<Rightarrow> dispatch_button ''blur'' i (p\<lparr>elems := (elems p)[i := set_focus False e]\<rparr>))"

text \<open>
  \<^verbatim>\<open>this.btnElement_.blur()\<close>, the body of the queued callback: a control that has
  the focus loses it, one that has not is left alone.
\<close>

definition blur_button :: "nat \<Rightarrow> page \<Rightarrow> js_error + page" where
  "blur_button i p =
     (case btnElement' (elems p) i of
        None \<Rightarrow> Inl TypeError
      | Some b \<Rightarrow> if has_focus b then blur_event i p else Inr p)"

text \<open>
  One step of the event loop on the timer queue, taken between two event-handling
  turns and never inside one: the oldest queued call leaves the queue and runs.
\<close>

definition run_timeout :: "page \<Rightarrow> js_error + page" where
  "run_timeout p =
     (case timeouts p of
        [] \<Rightarrow> Inr p
      | (d, i) # rest \<Rightarrow> blur_button i (p\<lparr>timeouts := rest\<rparr>))"

subsection \<open>Initialisation\<close>

text \<open>
  The nodes \<^verbatim>\<open>init\<close> builds: \<^verbatim>\<open>document.createElement('span')\<close>, and on a span
  \<^verbatim>\<open>classList.add\<close>, \<^verbatim>\<open>addEventListener\<close> and \<^verbatim>\<open>appendChild\<close>.
\<close>

definition createElement :: span where
  "createElement = Span [] [] []"

definition span_add :: "string \<Rightarrow> span \<Rightarrow> span" where
  "span_add c s =
     Span (if c \<in> set (span_classes s) then span_classes s else span_classes s @ [c])
       (span_listeners s) (span_children s)"

definition span_addEventListener :: "string \<Rightarrow> handler \<Rightarrow> span \<Rightarrow> span" where
  "span_addEventListener ev h s =
     Span (span_classes s) (span_listeners s @ [(ev, h)]) (span_children s)"

definition span_appendChild :: "span \<Rightarrow> span \<Rightarrow> span" where
  "span_appendChild c s = Span (span_classes s) (span_listeners s) (span_children s @ [c])"

definition appendChild :: "span \<Rightarrow> element \<Rightarrow> element" where
  "appendChild c e = e\<lparr>children := children e @ [c]\<rparr>"

text \<open>
  The ripple container with its listener and its one child, as the branch on
  \<^verbatim>\<open>RIPPLE_EFFECT\<close> builds it.
\<close>

definition rippleContainer :: "handler \<Rightarrow> span" where
  "rippleContainer boundMouseUpHandler =
     span_appendChild (span_add RIPPLE createElement)
       (span_addEventListener ''mouseup'' boundMouseUpHandler
          (span_add RIPPLE_CENTER (span_add RIPPLE_EFFECT
             (span_add RIPPLE_CONTAINER createElement))))"

text \<open>
  The body of \<^verbatim>\<open>init\<close> under its guard \<^verbatim>\<open>if (this.element_)\<close>, in the order of
  the source: the control is looked up, the four handlers are bound, the circles are
  appended, the ripple container is built when the element carries
  \<^verbatim>\<open>RIPPLE_EFFECT\<close>, the listeners are added (the first \<^verbatim>\<open>addEventListener\<close> on
  an absent control throws), the classes are updated and \<^verbatim>\<open>IS_UPGRADED\<close> is added.
\<close>

definition init_element :: "element \<Rightarrow> js_error + element" where
  "init_element e =
     (let btnElement = button e;
          boundChangeHandler = OnChange;
          boundFocusHandler = OnChange;
          boundBlurHandler = OnBlur;
          boundMouseUpHandler = OnMouseup;
          outerCircle = span_add RADIO_OUTER_CIRCLE createElement;
          innerCircle = span_add RADIO_INNER_CIRCLE createElement;
          e1 = appendChild innerCircle (appendChild outerCircle e);
          e2 = (if classList_contains RIPPLE_EFFECT (classList e1)
                then appendChild (rippleContainer boundMouseUpHandler)
                       (e1\<lparr>classList := classList_add RIPPLE_IGNORE_EVENTS (classList e1)\<rparr>)
                else e1)
      in case btnElement of
           None \<Rightarrow> Inl TypeError
         | Some b \<Rightarrow>
             (let b' = b\<lparr>ctl_listeners := ctl_listeners b @
                         [(''change'', boundChangeHandler),
                          (''focus'', boundFocusHandler),
                          (''blur'', boundBlurHandler)]\<rparr>;
                  e3 = e2\<lparr>button := Some b',
                          listeners := listeners e2 @ [(''mouseup'', boundMouseUpHandler)]\<rparr>
              in case updateClasses' e3 of
                   Inl err \<Rightarrow> Inl err
                 | Inr e4 \<Rightarrow> Inr (e4\<lparr>classList := classList_add IS_UPGRADED (classList e4)\<rparr>)))"

text \<open>
  \<^verbatim>\<open>init\<close> of instance \<open>i\<close>, which the constructor calls right after it has stored
  the element: nothing happens when the element is absent.
\<close>

definition init :: "nat \<Rightarrow> page \<Rightarrow> js_error + page" where
  "init i p =
     (case element' (elems p) i of
        None \<Rightarrow> Inr p
      | Some e \<Rightarrow>
          (case init_element e of
             Inl err \<Rightarrow> Inl err
           | Inr e' \<Rightarrow> Inr (p\<lparr>elems := (elems p)[i := e']\<rparr>)))"

subsection \<open>Every function of the prototype\<close>

text \<open>
  The methods \<^verbatim>\<open>MaterialRadio.prototype\<close> defines, and a call of one on instance
  \<open>i\<close>. Nothing else of the widget runs on the page.
\<close>

datatype operation =
    Bound handler
  | UpdateClasses
  | Blur
  | CheckDisabled
  | CheckToggleState
  | Disable
  | Enable
  | Check
  | Uncheck
  | Init

fun invoke :: "operation \<Rightarrow> nat \<Rightarrow> page \<Rightarrow> js_error + page" where
  "invoke (Bound h) i p = call h i p"
| "invoke UpdateClasses i p = on_instance i updateClasses' p"
| "invoke Blur i p = Inr (blur' i p)"
| "invoke CheckDisabled i p = on_instance i checkDisabled p"
| "invoke CheckToggleState i p = on_instance i checkToggleState p"
| "invoke Disable i p = on_instance i disable p"
| "invoke Enable i p = on_instance i enable p"
| "invoke Check i p = check i p"
| "invoke Uncheck i p = uncheck i p"
| "invoke Init i p = init i p"

subsection \<open>Instances and groups\<close>

text \<open>
  An element that holds a widget instance the way the registry leaves it: it carries
  the class the registry selects by (\<^verbatim>\<open>cssClass: 'mdl-js-radio'\<close>), the instance
  is stored on it, and the instance has found its control.
\<close>

definition is_instance :: "element \<Rightarrow> bool" where
  "is_instance e =
     (classList_contains JS_RADIO (classList e) \<and> MaterialRadio e \<and> button e \<noteq> None)"

text \<open>\<^verbatim>\<open>getAttribute('name')\<close> of the control of an element.\<close>

definition control_name :: "element \<Rightarrow> string option" where
  "control_name e = (case button e of None \<Rightarrow> None | Some b \<Rightarrow> name_attr b)"

definition control_form :: "element \<Rightarrow> nat option" where
  "control_form e = (case button e of None \<Rightarrow> None | Some b \<Rightarrow> form_owner b)"

text \<open>
  The instances of the page whose controls have the name attribute \<open>nm\<close>, and those
  among them whose controls belong to form \<open>f\<close>.
\<close>

definition name_group :: "page \<Rightarrow> string option \<Rightarrow> nat list" where
  "name_group p nm =
     filter (\<lambda>j. is_instance (elems p ! j) \<and> control_name (elems p ! j) = nm)
       [0..<length (elems p)]"

definition form_name_group :: "page \<Rightarrow> nat option \<Rightarrow> string \<Rightarrow> nat list" where
  "form_name_group p f n =
     filter (\<lambda>j. control_form (elems p ! j) = f) (name_group p (Some n))"

text \<open>The instances of a list that show the checked class on page \<open>p\<close>.\<close>

definition showing_checked :: "page \<Rightarrow> nat list \<Rightarrow> nat list" where
  "showing_checked p js =
     filter (\<lambda>j. classList_contains IS_CHECKED (classList (elems p ! j))) js"

text \<open>Every element the scan of \<^verbatim>\<open>onChange_\<close> visits contains a control.\<close>

definition scan_has_controls :: "page \<Rightarrow> bool" where
  "scan_has_controls p =
     list_all (\<lambda>j. button (elems p ! j) \<noteq> None) (getElementsByClassName JS_RADIO (elems p))"

subsection \<open>Example pages\<close>

text \<open>
  The markup of one radio before the registry has seen it: a container with the marker
  class around a radio input of the given name, form and checkedness.
\<close>

definition radio_markup :: "string option \<Rightarrow> nat option \<Rightarrow> bool \<Rightarrow> element" where
  "radio_markup nm f c =
     \<lparr>classList = {''mdl-radio'', ''mdl-js-radio''},
      button = Some \<lparr>name_attr = nm, form_owner = f, checked = c, disabled = False,
                     has_focus = False, ctl_listeners = []\<rparr>,
      children = [], listeners = [], MaterialRadio = False\<rparr>"

text \<open>
  The element after the registry has upgraded it: the instance is constructed on it
  (\<^verbatim>\<open>init\<close> runs) and stored under \<^verbatim>\<open>'MaterialRadio'\<close>.
\<close>

definition upgraded :: "element \<Rightarrow> element" where
  "upgraded e = (case init_element e of Inl err \<Rightarrow> e | Inr e' \<Rightarrow> e'\<lparr>MaterialRadio := True\<rparr>)"

text \<open>Three upgraded radios named \<^verbatim>\<open>tier\<close> in one form, none checked.\<close>

definition tier_page :: page where
  "tier_page =
     \<lparr>elems = [upgraded (radio_markup (Some ''tier'') (Some 0) False),
               upgraded (radio_markup (Some ''tier'') (Some 0) False),
               upgraded (radio_markup (Some ''tier'') (Some 0) False)],
      timeouts = []\<rparr>"

text \<open>
  Two upgraded radios named \<^verbatim>\<open>tier\<close>, each in a form of its own; the first is
  checked.
\<close>

definition two_forms_page :: page where
  "two_forms_page =
     \<lparr>elems = [upgraded (radio_markup (Some ''tier'') (Some 0) True),
               upgraded (radio_markup (Some ''tier'') (Some 1) False)],
      timeouts = []\<rparr>"

text \<open>
  An upgraded radio whose control was checked afterwards with no change event (a form
  reset to a checked default, or a script writing \<^verbatim>\<open>input.checked\<close>): the checked
  class has not followed.
\<close>

definition stale_radio :: element where
  "stale_radio =
     \<lparr>classList = {''mdl-radio'', ''mdl-js-radio'', ''is-upgraded''},
      button = Some \<lparr>name_attr = Some ''tier'', form_owner = Some 0, checked = True,
                     disabled = False, has_focus = False,
                     ctl_listeners = [(''change'', OnChange), (''focus'', OnChange),
                                      (''blur'', OnBlur)]\<rparr>,
      children = [Span [''mdl-radio__outer-circle''] [] [],
                  Span [''mdl-radio__inner-circle''] [] []],
      listeners = [(''mouseup'', OnMouseup)], MaterialRadio = True\<rparr>"

text \<open>One radio with the ripple effect, as markup and upgraded.\<close>

definition ripple_markup :: element where
  "ripple_markup =
     \<lparr>classList = {''mdl-radio'', ''mdl-js-radio'', ''mdl-js-ripple-effect''},
      button = Some \<lparr>name_attr = Some ''tier'', form_owner = Some 0, checked = True,
                     disabled = False, has_focus = False, ctl_listeners = []\<rparr>,
      children = [], listeners = [], MaterialRadio = False\<rparr>"

definition ripple_page :: page where
  "ripple_page = \<lparr>elems = [upgraded ripple_markup], timeouts = []\<rparr>"

text \<open>\<open>stale_radio\<close> after \<^verbatim>\<open>updateClasses_\<close>, and after \<^verbatim>\<open>disable\<close>.\<close>

definition stale_synced :: element where
  "stale_synced =
     stale_radio\<lparr>classList := {''is-checked'', ''mdl-radio'', ''mdl-js-radio'', ''is-upgraded''}\<rparr>"

definition stale_disabled :: element where
  "stale_disabled =
     \<lparr>classList = {''is-checked'', ''is-disabled'', ''mdl-radio'', ''mdl-js-radio'',
                   ''is-upgraded''},
      button = Some \<lparr>name_attr = Some ''tier'', form_owner = Some 0, checked = True,
                     disabled = True, has_focus = False,
                     ctl_listeners = [(''change'', OnChange), (''focus'', OnChange),
                                      (''blur'', OnBlur)]\<rparr>,
      children = [Span [''mdl-radio__outer-circle''] [] [],
                  Span [''mdl-radio__inner-circle''] [] []],
      listeners = [(''mouseup'', OnMouseup)], MaterialRadio = True\<rparr>"

text \<open>\<open>tier_page\<close> with the focus on the control of its second radio.\<close>

definition tier_focused :: page where
  "tier_focused =
     tier_page\<lparr>elems := (elems tier_page)[1 := set_focus True (elems tier_page ! 1)]\<rparr>"

text \<open>\<open>two_forms_page\<close> with both controls checked and both checked classes shown.\<close>

definition two_forms_checked :: page where
  "two_forms_checked =
     \<lparr>elems = [upgraded (radio_markup (Some ''tier'') (Some 0) True),
               upgraded (radio_markup (Some ''tier'') (Some 1) True)],
      timeouts = []\<rparr>"

text \<open>The markup of the ripple radio as a page, before the registry has seen it.\<close>

definition markup_page :: page where
  "markup_page = \<lparr>elems = [ripple_markup], timeouts = []\<rparr>"

text \<open>\<open>ripple_page\<close> with the focus on its control.\<close>

definition ripple_focused :: page where
  "ripple_focused = \<lparr>elems = [set_focus True (upgraded ripple_markup)], timeouts = []\<rparr>"

text \<open>\<open>ripple_focused\<close> after one \<^verbatim>\<open>mouseup\<close> at the element.\<close>

definition ripple_waiting :: page where
  "ripple_waiting =
     \<lparr>elems = [set_focus True (upgraded ripple_markup)], timeouts = [(TINY_TIMEOUT, 0)]\<rparr>"

section \<open>The document shell (html.js)\<close>

text \<open>
  A React element: its tag, its props in the order they are given, and its children.
  A prop is a string, or the object \<^verbatim>\<open>{ __html: s }\<close> handed to
  \<^verbatim>\<open>dangerouslySetInnerHTML\<close>, where \<open>None\<close> is \<^verbatim>\<open>undefined\<close>.
\<close>

datatype prop_value = Str string | InnerHTML "string option"

datatype jsx = Tag (tag_of: string) (props_of: "(string \<times> prop_value) list") (children_of: "jsx list")

text \<open>\<^verbatim>\<open>this.props\<close> of the shell, as the build pipeline supplies them.\<close>

record shell_props =
  htmlAttributes :: "(string \<times> prop_value) list"
  headComponents :: "jsx list"
  bodyAttributes :: "(string \<times> prop_value) list"
  preBodyComponents :: "jsx list"
  body :: "string option"
  postBodyComponents :: "jsx list"

text \<open>
  The module body. \<open>node_env\<close> is \<^verbatim>\<open>process.env.NODE_ENV\<close>; \<open>req\<close> is what
  \<^verbatim>\<open>require('!raw-loader!../public/styles.css')\<close> does when it is reached: it
  returns the stylesheet (\<open>Inr\<close>) or throws (\<open>Inl\<close>). The result is
  \<^verbatim>\<open>stylesStr\<close> and what \<^verbatim>\<open>console.error\<close> has printed.
\<close>

definition stylesStr :: "string \<Rightarrow> string + string \<Rightarrow> string option \<times> string list" where
  "stylesStr node_env req =
     (if node_env = ''production'' then
        (case req of
           Inr s \<Rightarrow> (Some s, [])
         | Inl e \<Rightarrow> (None, [e]))
      else (None, []))"

text \<open>The fixed children of \<^verbatim>\<open>head\<close>, in the order of the source.\<close>

definition head_metadata :: "jsx list" where
  "head_metadata =
     [Tag ''meta'' [(''charSet'', Str ''utf-8'')] [],
      Tag ''meta'' [(''httpEquiv'', Str ''x-ua-compatible''), (''content'', Str ''ie=edge'')] [],
      Tag ''meta'' [(''name'', Str ''viewport''),
        (''content'', Str (''width=device-width, shrink-to-fit=no,''
           @ '' initial-scale=1.0, minimum-scale=1.0''))] [],
      Tag ''meta'' [(''name'', Str ''keywords''),
        (''content'', Str (''bastion, bastion bot, discord, discord bot, bot, music,''
           @ '' currency, the best discord bot, best discord bot, best bot,''
           @ '' stream, game, fun, administration, moderation, queries,''
           @ '' searches, gambling, game stats, stats, info''))] [],
      Tag ''meta'' [(''name'', Str ''twitter:card''), (''content'', Str ''summary_large_image'')] [],
      Tag ''meta'' [(''name'', Str ''twitter:site''), (''content'', Str '''')] [],
      Tag ''meta'' [(''name'', Str ''twitter:creator''), (''content'', Str ''@JimmyJasonDev'')] [],
      Tag ''meta'' [(''property'', Str ''og:site_name''), (''content'', Str ''Clara Discord Bot'')] [],
      Tag ''meta'' [(''property'', Str ''og:url''),
        (''content'', Str ''https://claradiscordbot.glitch.me'')] [],
      Tag ''meta'' [(''property'', Str ''og:image:width''), (''content'', Str ''1000'')] [],
      Tag ''meta'' [(''property'', Str ''og:image:height''), (''content'', Str ''524'')] [],
      Tag ''meta'' [(''property'', Str ''og:type''), (''content'', Str ''website'')] [],
      Tag ''link'' [(''rel'', Str ''apple-touch-icon''), (''sizes'', Str ''180x180''),
        (''href'', Str ''/apple-touch-icon.png'')] [],
      Tag ''link'' [(''rel'', Str ''shortcut icon''), (''href'', Str '''')] [],
      Tag ''link'' [(''rel'', Str ''icon''), (''type'', Str ''image/x-icon''),
        (''href'', Str '''')] [],
      Tag ''link'' [(''rel'', Str ''icon''), (''type'', Str ''image/png''),
        (''sizes'', Str ''32x32''), (''href'', Str ''/favicon-32x32.png'')] [],
      Tag ''link'' [(''rel'', Str ''icon''), (''type'', Str ''image/png''),
        (''sizes'', Str ''16x16''), (''href'', Str ''/favicon-16x16.png'')] [],
      Tag ''link'' [(''rel'', Str ''manifest''), (''href'', Str ''/site.webmanifest'')] [],
      Tag ''link'' [(''rel'', Str ''mask-icon''), (''href'', Str ''/safari-pinned-tab.svg''),
        (''color'', Str ''#40bbfb'')] [],
      Tag ''meta'' [(''name'', Str ''apple-mobile-web-app-title''),
        (''content'', Str ''Clara Discord Bot'')] [],
      Tag ''meta'' [(''name'', Str ''application-name''),
        (''content'', Str ''Clara Discord Bot'')] [],
      Tag ''meta'' [(''name'', Str ''msapplication-TileColor''), (''content'', Str ''#070a0c'')] [],
      Tag ''meta'' [(''name'', Str ''theme-color''), (''content'', Str ''#070a0c'')] []]"

text \<open>
  \<^verbatim>\<open>HTML.render\<close>. \<open>styles\<close> is the module variable \<^verbatim>\<open>stylesStr\<close>. A prop
  written after a spread replaces the spread's prop of the same name; an
  \<^verbatim>\<open>undefined\<close> child (\<^verbatim>\<open>css\<close> outside production) renders nothing; the arrays
  of components are laid out among their siblings.
\<close>

definition render :: "string \<Rightarrow> string option \<Rightarrow> shell_props \<Rightarrow> jsx" where
  "render node_env styles props =
     (let css = (if node_env = ''production''
                 then Some (Tag ''style'' [(''id'', Str ''gatsby-inlined-css''),
                        (''dangerouslySetInnerHTML'', InnerHTML styles)] [])
                 else None)
      in Tag ''html''
           (AList.update ''prefix'' (Str ''og: http://ogp.me/ns#'')
              (AList.update ''lang'' (Str ''en-US'') (htmlAttributes props)))
           [Tag ''head'' []
              (head_metadata @ headComponents props @
                 (case css of None \<Rightarrow> [] | Some c \<Rightarrow> [c])),
            Tag ''body'' (bodyAttributes props)
              (preBodyComponents props @
               [Tag ''div'' [(''key'', Str ''body''), (''id'', Str ''___gatsby''),
                  (''dangerouslySetInnerHTML'', InnerHTML (body props))] []] @
               postBodyComponents props)])"

text \<open>
  A build: the module body runs, then the shell renders. The result is the document
  and the console output.
\<close>

definition build_document :: "string \<Rightarrow> string + string \<Rightarrow> shell_props \<Rightarrow> jsx \<times> string list" where
  "build_document node_env req props =
     (case stylesStr node_env req of (styles, printed) \<Rightarrow> (render node_env styles props, printed))"

text \<open>The \<^verbatim>\<open>head\<close> and the \<^verbatim>\<open>body\<close> of a rendered document.\<close>

definition head_of :: "jsx \<Rightarrow> jsx" where
  "head_of d = children_of d ! 0"

definition body_of :: "jsx \<Rightarrow> jsx" where
  "body_of d = children_of d ! 1"

text \<open>The inlined style element around the stylesheet text \<open>s\<close>.\<close>

definition inlined_css :: "string option \<Rightarrow> jsx" where
  "inlined_css s =
     Tag ''style'' [(''id'', Str ''gatsby-inlined-css''),
       (''dangerouslySetInnerHTML'', InnerHTML s)] []"

text \<open>Props for the examples.\<close>

definition example_props :: shell_props where
  "example_props =
     \<lparr>htmlAttributes = [(''lang'', Str ''en'')],
      headComponents = [Tag ''title'' [] []],
      bodyAttributes = [],
      preBodyComponents = [],
      body = Some ''<main></main>'',
      postBodyComponents = [Tag ''script'' [(''src'', Str ''/app.js'')] []]\<rparr>"

section \<open>Properties of the radio widget\<close>

subsection \<open>Helper lemmas\<close>

lemmas css_defs = IS_FOCUSED_def IS_DISABLED_def IS_CHECKED_def IS_UPGRADED_def JS_RADIO_def
  RADIO_BTN_def RADIO_OUTER_CIRCLE_def RADIO_INNER_CIRCLE_def RIPPLE_EFFECT_def
  RIPPLE_IGNORE_EVENTS_def RIPPLE_CONTAINER_def RIPPLE_CENTER_def RIPPLE_def

lemmas classList_defs = classList_add_def classList_remove_def classList_contains_def

lemma updateClasses_Some:
  "button e = Some b \<Longrightarrow> updateClasses' e = Inr (e\<lparr>classList :=
     (if checked b then insert IS_CHECKED else (\<lambda>s. s - {IS_CHECKED}))
       ((if disabled b then insert IS_DISABLED else (\<lambda>s. s - {IS_DISABLED})) (classList e))\<rparr>)"
  by (simp add: updateClasses'_def checkDisabled_def checkToggleState_def classList_defs)

lemma updateClasses_None: "button e = None \<Longrightarrow> updateClasses' e = Inl TypeError"
  by (simp add: updateClasses'_def checkDisabled_def)

lemma updateClasses_frame:
  assumes "updateClasses' e = Inr e'"
  shows "button e' = button e" "MaterialRadio e' = MaterialRadio e"
    "children e' = children e" "listeners e' = listeners e"
    "(JS_RADIO \<in> classList e') = (JS_RADIO \<in> classList e)"
proof -
  from assms obtain b where b: "button e = Some b"
    by (cases "button e") (auto simp: updateClasses_None)
  from assms show "button e' = button e" "MaterialRadio e' = MaterialRadio e"
    "children e' = children e" "listeners e' = listeners e"
    "(JS_RADIO \<in> classList e') = (JS_RADIO \<in> classList e)"
    by (auto simp: updateClasses_Some [OF b] css_defs split: if_splits)
qed

lemma updateClasses_checked:
  assumes "updateClasses' e = Inr e'" and "button e = Some b"
  shows "(IS_CHECKED \<in> classList e') = checked b"
    and "(IS_DISABLED \<in> classList e') = disabled b"
  using assms by (auto simp: updateClasses_Some css_defs split: if_splits)

lemma upgraded_radio_markup:
  "upgraded (radio_markup nm f c) =
     \<lparr>classList = (if c then {''is-upgraded'', ''is-checked'', ''mdl-radio'', ''mdl-js-radio''}
                   else {''is-upgraded'', ''mdl-radio'', ''mdl-js-radio''}),
      button = Some \<lparr>name_attr = nm, form_owner = f, checked = c, disabled = False,
                     has_focus = False,
                     ctl_listeners = [(''change'', OnChange), (''focus'', OnChange),
                                      (''blur'', OnBlur)]\<rparr>,
      children = [Span [''mdl-radio__outer-circle''] [] [],
                  Span [''mdl-radio__inner-circle''] [] []],
      listeners = [(''mouseup'', OnMouseup)], MaterialRadio = True\<rparr>"
  by (simp add: upgraded_def radio_markup_def init_element_def Let_def appendChild_def
      span_add_def createElement_def classList_defs css_defs updateClasses'_def
      checkDisabled_def checkToggleState_def)

lemma upgraded_ripple_markup:
  "upgraded ripple_markup =
     \<lparr>classList = {''is-upgraded'', ''is-checked'', ''mdl-js-ripple-effect--ignore-events'',
                   ''mdl-radio'', ''mdl-js-radio'', ''mdl-js-ripple-effect''},
      button = Some \<lparr>name_attr = Some ''tier'', form_owner = Some 0, checked = True,
                     disabled = False, has_focus = False,
                     ctl_listeners = [(''change'', OnChange), (''focus'', OnChange),
                                      (''blur'', OnBlur)]\<rparr>,
      children = [Span [''mdl-radio__outer-circle''] [] [],
                  Span [''mdl-radio__inner-circle''] [] [],
                  Span [''mdl-radio__ripple-container'', ''mdl-js-ripple-effect'',
                        ''mdl-ripple--center'']
                    [(''mouseup'', OnMouseup)] [Span [''mdl-ripple''] [] []]],
      listeners = [(''mouseup'', OnMouseup)], MaterialRadio = True\<rparr>"
  by (simp add: upgraded_def ripple_markup_def init_element_def Let_def appendChild_def
      rippleContainer_def span_add_def span_addEventListener_def span_appendChild_def
      createElement_def classList_defs css_defs updateClasses'_def
      checkDisabled_def checkToggleState_def)

lemma btnElement_update:
  "button e' = button (es ! j) \<Longrightarrow> btnElement' (es[j := e']) i = btnElement' es i"
  by (cases "j < length es") (auto simp: btnElement'_def element'_def nth_list_update)

lemma onChange_loop_char:
  assumes "distinct js"
    and "\<forall>j\<in>set js. j < length es \<and> button (es ! j) \<noteq> None"
    and "btnElement' es i = Some tb"
  shows "\<exists>es'. onChange_loop i js es = Inr es' \<and> length es' = length es \<and>
    (\<forall>k<length es.
       if k \<in> set js \<and> MaterialRadio (es ! k) \<and>
          (\<exists>b. button (es ! k) = Some b \<and> name_attr b = name_attr tb)
       then updateClasses' (es ! k) = Inr (es' ! k)
       else es' ! k = es ! k)"
  using assms
proof (induction js arbitrary: es)
  case Nil
  then show ?case by simp
next
  case (Cons j js)
  from Cons.prems obtain b where jlt: "j < length es" and b: "button (es ! j) = Some b"
    by auto
  from Cons.prems have dj: "distinct js" and jn: "j \<notin> set js" by auto
  show ?case
  proof (cases "name_attr b = name_attr tb \<and> MaterialRadio (es ! j)")
    case False
    from Cons.prems dj have "\<exists>es'. onChange_loop i js es = Inr es' \<and> length es' = length es \<and>
      (\<forall>k<length es.
         if k \<in> set js \<and> MaterialRadio (es ! k) \<and>
            (\<exists>b. button (es ! k) = Some b \<and> name_attr b = name_attr tb)
         then updateClasses' (es ! k) = Inr (es' ! k)
         else es' ! k = es ! k)"
      by (intro Cons.IH) auto
    then obtain es' where r: "onChange_loop i js es = Inr es'" "length es' = length es"
      and c: "\<forall>k<length es.
         if k \<in> set js \<and> MaterialRadio (es ! k) \<and>
            (\<exists>b. button (es ! k) = Some b \<and> name_attr b = name_attr tb)
         then updateClasses' (es ! k) = Inr (es' ! k)
         else es' ! k = es ! k" by blast
    from False b Cons.prems(3) r have "onChange_loop i (j # js) es = Inr es'"
      by auto
    moreover have "\<forall>k<length es.
         if k \<in> set (j # js) \<and> MaterialRadio (es ! k) \<and>
            (\<exists>b. button (es ! k) = Some b \<and> name_attr b = name_attr tb)
         then updateClasses' (es ! k) = Inr (es' ! k)
         else es' ! k = es ! k"
    proof (intro allI impI)
      fix k assume k: "k < length es"
      show "if k \<in> set (j # js) \<and> MaterialRadio (es ! k) \<and>
            (\<exists>b. button (es ! k) = Some b \<and> name_attr b = name_attr tb)
         then updateClasses' (es ! k) = Inr (es' ! k)
         else es' ! k = es ! k"
      proof (cases "k = j")
        case True
        with c k jn False b show ?thesis by auto
      next
        case kj: False
        with c k show ?thesis by auto
      qed
    qed
    ultimately show ?thesis using r by blast
  next
    case True
    let ?e = "es ! j"
    obtain e' where e': "updateClasses' ?e = Inr e'"
      using updateClasses_Some [OF b] by blast
    let ?es2 = "es[j := e']"
    have fr: "button e' = button ?e" "MaterialRadio e' = MaterialRadio ?e"
      using updateClasses_frame [OF e'] by auto
    have same: "\<And>k. k < length es \<Longrightarrow> button (?es2 ! k) = button (es ! k) \<and>
        MaterialRadio (?es2 ! k) = MaterialRadio (es ! k)"
      using fr jlt by (auto simp: nth_list_update)
    have p2: "\<forall>j\<in>set js. j < length ?es2 \<and> button (?es2 ! j) \<noteq> None"
      using Cons.prems(2) same by auto
    have p3: "btnElement' ?es2 i = Some tb"
      using Cons.prems(3) fr by (simp add: btnElement_update)
    from Cons.IH [OF dj p2 p3]
    obtain es' where r: "onChange_loop i js ?es2 = Inr es'" "length es' = length es"
      and c: "\<forall>k<length es.
         if k \<in> set js \<and> MaterialRadio (?es2 ! k) \<and>
            (\<exists>b. button (?es2 ! k) = Some b \<and> name_attr b = name_attr tb)
         then updateClasses' (?es2 ! k) = Inr (es' ! k)
         else es' ! k = ?es2 ! k" by auto
    from True b Cons.prems(3) e' r have "onChange_loop i (j # js) es = Inr es'"
      by auto
    moreover have "\<forall>k<length es.
         if k \<in> set (j # js) \<and> MaterialRadio (es ! k) \<and>
            (\<exists>b. button (es ! k) = Some b \<and> name_attr b = name_attr tb)
         then updateClasses' (es ! k) = Inr (es' ! k)
         else es' ! k = es ! k"
    proof (intro allI impI)
      fix k assume k: "k < length es"
      show "if k \<in> set (j # js) \<and> MaterialRadio (es ! k) \<and>
            (\<exists>b. button (es ! k) = Some b \<and> name_attr b = name_attr tb)
         then updateClasses' (es ! k) = Inr (es' ! k)
         else es' ! k = es ! k"
      proof (cases "k = j")
        case kj: True
        from c k jn kj have "es' ! j = ?es2 ! j" by auto
        with jlt have "es' ! j = e'" by simp
        with kj True b e' show ?thesis by auto
      next
        case kj: False
        then have "?es2 ! k = es ! k" by simp
        with c k kj show ?thesis by auto
      qed
    qed
    ultimately show ?thesis using r by blast
  qed
qed

lemma onChange_char:
  assumes tb: "btnElement' (elems p) i = Some tb" and sc: "scan_has_controls p"
  shows "\<exists>es. onChange' i p = Inr (p\<lparr>elems := es\<rparr>) \<and> length es = length (elems p) \<and>
    (\<forall>j<length (elems p).
       if classList_contains JS_RADIO (classList (elems p ! j)) \<and>
          control_name (elems p ! j) = name_attr tb \<and> MaterialRadio (elems p ! j)
       then updateClasses' (elems p ! j) = Inr (es ! j)
       else es ! j = elems p ! j)"
proof -
  let ?js = "getElementsByClassName JS_RADIO (elems p)"
  have d: "distinct ?js" by (simp add: getElementsByClassName_def)
  have m: "\<And>j. j \<in> set ?js \<longleftrightarrow> j < length (elems p) \<and> classList_contains JS_RADIO (classList (elems p ! j))"
    by (auto simp: getElementsByClassName_def)
  from sc have c: "\<forall>j\<in>set ?js. j < length (elems p) \<and> button (elems p ! j) \<noteq> None"
    by (auto simp: scan_has_controls_def list_all_iff m)
  from onChange_loop_char [OF d c tb]
  obtain es where r: "onChange_loop i ?js (elems p) = Inr es" and l: "length es = length (elems p)"
    and k: "\<forall>k<length (elems p).
       if k \<in> set ?js \<and> MaterialRadio (elems p ! k) \<and>
          (\<exists>b. button (elems p ! k) = Some b \<and> name_attr b = name_attr tb)
       then updateClasses' (elems p ! k) = Inr (es ! k)
       else es ! k = elems p ! k" by blast
  have "\<forall>j<length (elems p).
       if classList_contains JS_RADIO (classList (elems p ! j)) \<and>
          control_name (elems p ! j) = name_attr tb \<and> MaterialRadio (elems p ! j)
       then updateClasses' (elems p ! j) = Inr (es ! j)
       else es ! j = elems p ! j"
  proof (intro allI impI)
    fix j assume j: "j < length (elems p)"
    show "if classList_contains JS_RADIO (classList (elems p ! j)) \<and>
          control_name (elems p ! j) = name_attr tb \<and> MaterialRadio (elems p ! j)
       then updateClasses' (elems p ! j) = Inr (es ! j)
       else es ! j = elems p ! j"
    proof (cases "j \<in> set ?js")
      case True
      with c obtain b where b: "button (elems p ! j) = Some b" by auto
      from k j True b show ?thesis
        by (auto simp: m control_name_def)
    next
      case False
      with k j show ?thesis by (auto simp: m)
    qed
  qed
  with r l show ?thesis by (auto simp: onChange'_def)
qed

lemma length_set_checked: "length (set_checked i v es) = length es"
  by (simp add: set_checked_def split: option.splits)

lemma set_checked_nth:
  "btnElement' es i = Some c \<Longrightarrow> j < length es \<Longrightarrow>
     set_checked i v es ! j = assign_checked v i c j (es ! j)"
  by (simp add: set_checked_def)

lemma assign_checked_frame:
  "classList (assign_checked v i c j e) = classList e"
  "MaterialRadio (assign_checked v i c j e) = MaterialRadio e"
  "children (assign_checked v i c j e) = children e"
  "listeners (assign_checked v i c j e) = listeners e"
  "(button (assign_checked v i c j e) = None) = (button e = None)"
  "control_name (assign_checked v i c j e) = control_name e"
  "control_form (assign_checked v i c j e) = control_form e"
  by (auto simp: assign_checked_def control_name_def control_form_def split: option.splits)

lemma btnElement_Some:
  "btnElement' es i = Some c \<longleftrightarrow> i < length es \<and> button (es ! i) = Some c"
  by (auto simp: btnElement'_def element'_def)

lemma btnElement_set_checked:
  assumes "btnElement' es i = Some c"
  shows "btnElement' (set_checked i v es) i = Some (c\<lparr>checked := v\<rparr>)"
proof -
  from assms have i: "i < length es" and c: "button (es ! i) = Some c"
    by (simp_all add: btnElement_Some)
  from c have "button (assign_checked v i c i (es ! i)) = Some (c\<lparr>checked := v\<rparr>)"
    by (simp add: assign_checked_def)
  with i show ?thesis
    by (simp add: btnElement_Some length_set_checked set_checked_nth [OF assms])
qed

lemma scan_set_checked:
  "getElementsByClassName cl (set_checked i v es) = getElementsByClassName cl es"
proof (cases "btnElement' es i")
  case None
  then show ?thesis by (simp add: set_checked_def)
next
  case (Some c)
  show ?thesis
    unfolding getElementsByClassName_def length_set_checked
    by (rule filter_cong) (simp_all add: set_checked_nth [OF Some] assign_checked_frame)
qed

lemma scan_has_controls_set_checked:
  "scan_has_controls (p\<lparr>elems := set_checked i v (elems p)\<rparr>) = scan_has_controls p"
proof (cases "btnElement' (elems p) i")
  case None
  then show ?thesis by (simp add: set_checked_def)
next
  case (Some c)
  have "(button (set_checked i v (elems p) ! j) \<noteq> None) = (button (elems p ! j) \<noteq> None)"
    if "j \<in> set (getElementsByClassName JS_RADIO (elems p))" for j
  proof -
    from that have "j < length (elems p)" by (simp add: getElementsByClassName_def)
    then show ?thesis
      by (simp add: set_checked_nth [OF Some] assign_checked_frame)
  qed
  then show ?thesis
    by (simp add: scan_has_controls_def scan_set_checked list_all_iff)
qed

lemma button_list_update:
  "button e' = button (es ! j) \<Longrightarrow> button (es[j := e'] ! k) = button (es ! k)"
  by (cases "j < length es") (auto simp: nth_list_update list_update_beyond)

lemma onChange_loop_Inr_buttons:
  "onChange_loop i js es = Inr es' \<Longrightarrow> \<forall>j\<in>set js. button (es ! j) \<noteq> None"
proof (induction js arbitrary: es)
  case Nil
  then show ?case by simp
next
  case (Cons j js)
  from Cons.prems obtain b where b: "button (es ! j) = Some b"
    by (cases "button (es ! j)") auto
  from Cons.prems b obtain tb where tb: "btnElement' es i = Some tb"
    by (cases "btnElement' es i") auto
  show ?case
  proof (cases "name_attr b = name_attr tb \<and> MaterialRadio (es ! j)")
    case False
    with Cons.prems b tb have "onChange_loop i js es = Inr es'"
      by (auto split: if_splits)
    from Cons.IH [OF this] b show ?thesis by simp
  next
    case True
    obtain e' where e': "updateClasses' (es ! j) = Inr e'"
      using updateClasses_Some [OF b] by blast
    with True Cons.prems b tb have "onChange_loop i js (es[j := e']) = Inr es'" by auto
    from Cons.IH [OF this] have "\<forall>k\<in>set js. button (es[j := e'] ! k) \<noteq> None" .
    moreover have "button e' = button (es ! j)" using updateClasses_frame(1) [OF e'] .
    ultimately show ?thesis using b by (simp add: button_list_update)
  qed
qed

lemma onChange_Inr_scan: "onChange' i p = Inr p' \<Longrightarrow> scan_has_controls p"
  by (auto simp: onChange'_def scan_has_controls_def list_all_iff split: sum.splits
      dest: onChange_loop_Inr_buttons)

lemma filter_eq_single:
  "distinct xs \<Longrightarrow> i \<in> set xs \<Longrightarrow> filter (\<lambda>j. j = i) xs = [i]"
  by (induction xs) (auto simp: filter_empty_conv)

lemma run_single_OnChange: "run_listeners [OnChange] i p = onChange' i p"
  by (simp split: sum.splits)

lemma run_single_OnBlur:
  "run_listeners [OnBlur] i p = on_instance i (\<lambda>e. Inr (onBlur' e)) p"
  by (simp split: sum.splits)

lemma run_single_OnMouseup: "run_listeners [OnMouseup] i p = Inr (onMouseup' i p)"
  by simp

lemma check_exclusive_aux:
  assumes sc: "scan_has_controls p" and n: "n \<noteq> []"
    and i: "i \<in> set (form_name_group p f n)"
  shows "\<exists>p'. check i p = Inr p' \<and>
    showing_checked p' (form_name_group p f n) = [i] \<and>
    (\<forall>b. btnElement' (elems p) i = Some b \<and>
          listeners_for ''change'' (ctl_listeners b) = [OnChange] \<longrightarrow>
          change_event i True p = Inr p')"
proof -
  let ?G = "form_name_group p f n"
  have G: "\<And>j. j \<in> set ?G \<longleftrightarrow> j < length (elems p) \<and> is_instance (elems p ! j) \<and>
      control_name (elems p ! j) = Some n \<and> control_form (elems p ! j) = f"
    by (auto simp: form_name_group_def name_group_def)
  have dG: "distinct ?G" by (simp add: form_name_group_def name_group_def)
  from i G obtain c where il: "i < length (elems p)" and c: "button (elems p ! i) = Some c"
    and cn: "name_attr c = Some n" and cf: "form_owner c = f"
    by (auto simp: is_instance_def control_name_def control_form_def)
  from il c have tb: "btnElement' (elems p) i = Some c" by (simp add: btnElement_Some)
  let ?q = "p\<lparr>elems := set_checked i True (elems p)\<rparr>"
  have q_nth: "\<And>j. j < length (elems p) \<Longrightarrow>
      set_checked i True (elems p) ! j = assign_checked True i c j (elems p ! j)"
    by (simp add: set_checked_nth [OF tb])
  have tq: "btnElement' (elems ?q) i = Some (c\<lparr>checked := True\<rparr>)"
    using btnElement_set_checked [OF tb] by simp
  have sq: "scan_has_controls ?q" using sc by (simp add: scan_has_controls_set_checked)
  from onChange_char [OF tq sq]
  obtain es where r: "onChange' i ?q = Inr (?q\<lparr>elems := es\<rparr>)"
    and k: "\<forall>j<length (elems ?q).
       if classList_contains JS_RADIO (classList (elems ?q ! j)) \<and>
          control_name (elems ?q ! j) = name_attr (c\<lparr>checked := True\<rparr>) \<and>
          MaterialRadio (elems ?q ! j)
       then updateClasses' (elems ?q ! j) = Inr (es ! j)
       else es ! j = elems ?q ! j" by blast
  let ?p' = "?q\<lparr>elems := es\<rparr>"
  have ch: "check i p = Inr ?p'" using tb r by (simp add: check_def)
  have one: "\<And>j. j \<in> set ?G \<Longrightarrow>
      classList_contains IS_CHECKED (classList (es ! j)) = (j = i)"
  proof -
    fix j assume j: "j \<in> set ?G"
    with G obtain b where jl: "j < length (elems p)" and b: "button (elems p ! j) = Some b"
      and inst: "is_instance (elems p ! j)"
      and bn: "name_attr b = Some n" and bf: "form_owner b = f"
      by (auto simp: is_instance_def control_name_def control_form_def)
    have grp: "same_radio_group c b"
      using cn cf bn bf n by (simp add: same_radio_group_def)
    have bq: "button (elems ?q ! j) = Some (b\<lparr>checked := (j = i)\<rparr>)"
      using jl b grp by (auto simp: q_nth assign_checked_def)
    have "classList_contains JS_RADIO (classList (elems ?q ! j)) \<and>
          control_name (elems ?q ! j) = name_attr (c\<lparr>checked := True\<rparr>) \<and>
          MaterialRadio (elems ?q ! j)"
      using jl inst j G cn
      by (simp add: q_nth assign_checked_frame is_instance_def)
    moreover have "j < length (elems ?q)" using jl by (simp add: length_set_checked)
    ultimately have "updateClasses' (elems ?q ! j) = Inr (es ! j)"
      using k [rule_format, of j] by simp
    from updateClasses_checked(1) [OF this bq]
    show "classList_contains IS_CHECKED (classList (es ! j)) = (j = i)"
      by (simp add: classList_contains_def)
  qed
  have "showing_checked ?p' ?G = filter (\<lambda>j. j = i) ?G"
    unfolding showing_checked_def by (rule filter_cong) (simp_all add: one)
  with dG i have sh: "showing_checked ?p' ?G = [i]"
    by (simp add: filter_eq_single)
  have "\<forall>b. btnElement' (elems p) i = Some b \<and>
          listeners_for ''change'' (ctl_listeners b) = [OnChange] \<longrightarrow>
          change_event i True p = Inr ?p'"
    using tb tq r
    by (auto simp: change_event_def dispatch_button_def run_single_OnChange
        simp del: run_listeners.simps)
  with ch sh show ?thesis by blast
qed

lemma on_instance_timeouts: "on_instance i m p = Inr p' \<Longrightarrow> timeouts p' = timeouts p"
  by (auto simp: on_instance_def split: option.splits sum.splits)

lemma onChange_timeouts: "onChange' i p = Inr p' \<Longrightarrow> timeouts p' = timeouts p"
  by (auto simp: onChange'_def split: sum.splits)

lemma call_timeouts: "call h i p = Inr p' \<Longrightarrow> \<exists>new. timeouts p' = timeouts p @ new"
  by (cases h)
    (auto simp: onMouseup'_def blur'_def dest: on_instance_timeouts onChange_timeouts)

lemma invoke_timeouts: "invoke m i p = Inr p' \<Longrightarrow> \<exists>new. timeouts p' = timeouts p @ new"
proof (cases m)
  case (Bound h)
  assume "invoke m i p = Inr p'"
  with Bound show ?thesis by (simp add: call_timeouts)
next
  case Blur
  assume "invoke m i p = Inr p'"
  with Blur show ?thesis by (auto simp: blur'_def)
next
  case Check
  assume "invoke m i p = Inr p'"
  with Check show ?thesis
    by (auto simp: check_def split: option.splits dest: onChange_timeouts)
next
  case Uncheck
  assume "invoke m i p = Inr p'"
  with Uncheck show ?thesis
    by (auto simp: uncheck_def split: option.splits dest: onChange_timeouts)
next
  case Init
  assume "invoke m i p = Inr p'"
  with Init show ?thesis
    by (auto simp: init_def split: option.splits sum.splits)
qed (auto dest: on_instance_timeouts)


subsection \<open>Resynchronisation\<close>

text \<open>
  C3. \<^verbatim>\<open>updateClasses_\<close> (\<^verbatim>\<open>checkDisabled\<close>, then \<^verbatim>\<open>checkToggleState\<close>) is
  idempotent. When a run on an instance returns, a second run on what it left returns
  the same element. More generally, whatever else has changed in between, a second run
  on an element whose control has the same checked and disabled state and whose class
  set is the one the first run left returns and leaves that class set.
\<close>

theorem updateClasses_idempotent:
  assumes "updateClasses' e = Inr e'"
  shows "updateClasses' e' = Inr e' \<and>
    (\<forall>e2 b b2. button e' = Some b \<and> button e2 = Some b2 \<and>
        checked b2 = checked b \<and> disabled b2 = disabled b \<and> classList e2 = classList e' \<longrightarrow>
        (\<exists>e3. updateClasses' e2 = Inr e3 \<and> classList e3 = classList e'))"
proof -
  from assms obtain b0 where b0: "button e = Some b0"
    by (cases "button e") (auto simp: updateClasses_None)
  from assms have c: "(IS_CHECKED \<in> classList e') = checked b0"
    "(IS_DISABLED \<in> classList e') = disabled b0" and be: "button e' = Some b0"
    using updateClasses_checked [OF assms b0] updateClasses_frame(1) [OF assms] b0 by simp_all
  have again: "\<exists>e3. updateClasses' e2 = Inr e3 \<and> classList e3 = classList e' \<and>
      e3 = e2\<lparr>classList := classList e'\<rparr>"
    if "button e2 = Some b2" "checked b2 = checked b0" "disabled b2 = disabled b0"
      "classList e2 = classList e'" for e2 b2
    using that c
    by (auto simp: updateClasses_Some css_defs insert_absorb)
  from again [OF be] have "updateClasses' e' = Inr e'" by auto
  moreover have "\<forall>e2 b b2. button e' = Some b \<and> button e2 = Some b2 \<and>
        checked b2 = checked b \<and> disabled b2 = disabled b \<and> classList e2 = classList e' \<longrightarrow>
        (\<exists>e3. updateClasses' e2 = Inr e3 \<and> classList e3 = classList e')"
    using again be by auto
  ultimately show ?thesis by blast
qed

theorem updateClasses_idempotent_witness:
  "updateClasses' stale_radio = Inr stale_synced \<and> updateClasses' stale_synced = Inr stale_synced"
proof -
  have h: "updateClasses' stale_radio = Inr stale_synced"
    by (simp add: updateClasses'_def checkDisabled_def checkToggleState_def classList_defs
        stale_radio_def stale_synced_def css_defs)
  from updateClasses_idempotent [OF h] h show ?thesis by simp
qed

text \<open>
  C10. \<^verbatim>\<open>checkDisabled\<close>, \<^verbatim>\<open>checkToggleState\<close> and \<^verbatim>\<open>updateClasses_\<close> write
  the class list of the container and nothing else: the control, with its checked and
  disabled state, is what it was, and so is every other part of the element.
\<close>

theorem resync_leaves_control:
  "(checkDisabled e = Inr e' \<longrightarrow> button e' = button e \<and> e' = e\<lparr>classList := classList e'\<rparr>) \<and>
   (checkToggleState e = Inr e' \<longrightarrow> button e' = button e \<and> e' = e\<lparr>classList := classList e'\<rparr>) \<and>
   (updateClasses' e = Inr e' \<longrightarrow> button e' = button e \<and> e' = e\<lparr>classList := classList e'\<rparr>)"
  by (auto simp: updateClasses'_def checkDisabled_def checkToggleState_def
      split: option.splits if_splits sum.splits)

theorem resync_leaves_control_witness:
  "checkDisabled stale_radio = Inr stale_radio \<and>
   checkToggleState stale_radio = Inr stale_synced \<and>
   updateClasses' stale_radio = Inr stale_synced \<and>
   button stale_synced = button stale_radio \<and>
   stale_synced = stale_radio\<lparr>classList := classList stale_synced\<rparr>"
proof -
  have d: "checkDisabled stale_radio = Inr stale_radio"
    by (simp add: checkDisabled_def classList_defs stale_radio_def css_defs)
  have t: "checkToggleState stale_radio = Inr stale_synced"
    by (simp add: checkToggleState_def classList_defs stale_radio_def stale_synced_def css_defs)
  have u: "updateClasses' stale_radio = Inr stale_synced"
    by (simp add: updateClasses'_def d t)
  from resync_leaves_control [of stale_radio stale_radio] d
  have "button stale_radio = button stale_radio" by simp
  moreover from resync_leaves_control [of stale_radio stale_synced] t u
  have "button stale_synced = button stale_radio"
    and "stale_synced = stale_radio\<lparr>classList := classList stale_synced\<rparr>" by simp_all
  ultimately show ?thesis using d t u by simp
qed

subsection \<open>Disabling and enabling\<close>

text \<open>
  C6, as the claim states it, fails on an instance whose checked class is behind its
  control: \<^verbatim>\<open>disable\<close> runs \<^verbatim>\<open>checkToggleState\<close> too, so on \<open>stale_radio\<close> it adds
  the checked class besides the disabled class.
\<close>

theorem disable_stale_counterexample:
  "disable stale_radio = Inr stale_disabled \<and>
   \<not> classList_contains IS_CHECKED (classList_add IS_DISABLED (classList stale_radio)) \<and>
   \<not> classList_contains IS_CHECKED (classList stale_radio) \<and>
   classList_contains IS_CHECKED (classList stale_disabled)"
  by (simp add: disable_def stale_radio_def stale_disabled_def updateClasses'_def
      checkDisabled_def checkToggleState_def classList_defs css_defs)

text \<open>
  C6, amended. On an instance whose checked class mirrors the checked property of its
  control, \<^verbatim>\<open>disable\<close> sets the disabled property and adds exactly the disabled
  class; \<^verbatim>\<open>enable\<close> after it clears the property and removes the disabled class; the
  checked class is present at the end exactly when it was at the start.
\<close>

theorem disable_enable_classes:
  assumes "button e = Some b"
    and "classList_contains IS_CHECKED (classList e) = checked b"
  shows "\<exists>e1 e2.
     disable e = Inr e1 \<and>
     e1 = e\<lparr>button := Some (b\<lparr>disabled := True\<rparr>),
           classList := classList_add IS_DISABLED (classList e)\<rparr> \<and>
     enable e1 = Inr e2 \<and>
     e2 = e\<lparr>button := Some (b\<lparr>disabled := False\<rparr>),
           classList := classList_remove IS_DISABLED (classList e)\<rparr> \<and>
     classList_contains IS_CHECKED (classList e2) = classList_contains IS_CHECKED (classList e)"
  using assms
  by (auto simp: disable_def enable_def updateClasses_Some classList_defs css_defs insert_absorb)

theorem disable_enable_classes_witness:
  "button stale_synced =
     Some \<lparr>name_attr = Some ''tier'', form_owner = Some 0, checked = True, disabled = False,
            has_focus = False,
            ctl_listeners = [(''change'', OnChange), (''focus'', OnChange), (''blur'', OnBlur)]\<rparr> \<and>
   classList_contains IS_CHECKED (classList stale_synced) \<and>
   (\<exists>e1 e2.
     disable stale_synced = Inr e1 \<and>
     classList e1 = classList_add IS_DISABLED (classList stale_synced) \<and>
     enable e1 = Inr e2 \<and>
     classList e2 = classList_remove IS_DISABLED (classList stale_synced) \<and>
     classList_contains IS_CHECKED (classList e2))"
proof -
  let ?b = "\<lparr>name_attr = Some ''tier'', form_owner = Some 0, checked = True, disabled = False,
            has_focus = False,
            ctl_listeners = [(''change'', OnChange), (''focus'', OnChange), (''blur'', OnBlur)]\<rparr>"
  have b: "button stale_synced = Some ?b"
    by (simp add: stale_synced_def stale_radio_def)
  have c: "classList_contains IS_CHECKED (classList stale_synced) = checked ?b"
    by (simp add: stale_synced_def classList_defs css_defs)
  from disable_enable_classes [OF b c] b c show ?thesis
    by auto
qed

subsection \<open>Focus and blur\<close>

text \<open>
  C2 fails on the code. \<^verbatim>\<open>init\<close> binds \<^verbatim>\<open>boundFocusHandler_\<close> to
  \<^verbatim>\<open>onChange_\<close>, not to \<^verbatim>\<open>onFocus_\<close>, so the listener of \<^verbatim>\<open>focus\<close> on the
  control is \<^verbatim>\<open>onChange_\<close>. On the upgraded page \<open>tier_page\<close> a focus event at the
  second control gives the control the focus and leaves the container without the
  focused class, which \<^verbatim>\<open>onFocus_\<close> would have added.
\<close>

theorem focus_event_not_focused:
  "focus_event 1 tier_page = Inr tier_focused \<and>
   btnElement' (elems tier_focused) 1 =
     Some \<lparr>name_attr = Some ''tier'', form_owner = Some 0, checked = False, disabled = False,
            has_focus = True,
            ctl_listeners = [(''change'', OnChange), (''focus'', OnChange), (''blur'', OnBlur)]\<rparr> \<and>
   \<not> classList_contains IS_FOCUSED (classList (elems tier_focused ! 1)) \<and>
   classList_contains IS_FOCUSED (classList (onFocus' (elems tier_focused ! 1)))"
  by (simp add: focus_event_def tier_focused_def tier_page_def upgraded_radio_markup
      element'_def btnElement'_def set_focus_def dispatch_button_def listeners_for_def
      onChange'_def getElementsByClassName_def classList_defs css_defs upt_rec
      updateClasses'_def checkDisabled_def checkToggleState_def onFocus'_def)

subsection \<open>Group propagation\<close>

text \<open>
  C4. \<^verbatim>\<open>onChange_\<close> of instance \<open>i\<close>, on a page where every element that
  carries the marker class contains a control, returns; no length changes; and for each
  element of the page: when it carries the marker class, the name attribute of its
  control equals the name attribute of the control of \<open>i\<close>, and an instance is stored
  on it, it is what \<^verbatim>\<open>updateClasses_\<close> of that instance makes of it; otherwise it
  is untouched. The element of \<open>i\<close> itself is resynchronised when it is an instance
  in the document, and the queued calls are untouched.
\<close>

theorem onChange_resyncs_same_name:
  assumes "btnElement' (elems p) i = Some tb" and "scan_has_controls p"
  shows "\<exists>es. onChange' i p = Inr (p\<lparr>elems := es\<rparr>) \<and> length es = length (elems p) \<and>
    (\<forall>j<length (elems p).
       if classList_contains JS_RADIO (classList (elems p ! j)) \<and>
          control_name (elems p ! j) = name_attr tb \<and> MaterialRadio (elems p ! j)
       then updateClasses' (elems p ! j) = Inr (es ! j)
       else es ! j = elems p ! j) \<and>
    (is_instance (elems p ! i) \<longrightarrow> updateClasses' (elems p ! i) = Inr (es ! i))"
proof -
  from onChange_char [OF assms]
  obtain es where r: "onChange' i p = Inr (p\<lparr>elems := es\<rparr>)" "length es = length (elems p)"
    and k: "\<forall>j<length (elems p).
       if classList_contains JS_RADIO (classList (elems p ! j)) \<and>
          control_name (elems p ! j) = name_attr tb \<and> MaterialRadio (elems p ! j)
       then updateClasses' (elems p ! j) = Inr (es ! j)
       else es ! j = elems p ! j" by blast
  from assms(1) have i: "i < length (elems p)" "control_name (elems p ! i) = name_attr tb"
    by (auto simp: btnElement_Some control_name_def)
  with k have "is_instance (elems p ! i) \<longrightarrow> updateClasses' (elems p ! i) = Inr (es ! i)"
    by (auto simp: is_instance_def)
  with r k show ?thesis by blast
qed

theorem onChange_resyncs_same_name_witness:
  "btnElement' (elems tier_focused) 1 =
     Some \<lparr>name_attr = Some ''tier'', form_owner = Some 0, checked = False, disabled = False,
            has_focus = True,
            ctl_listeners = [(''change'', OnChange), (''focus'', OnChange), (''blur'', OnBlur)]\<rparr> \<and>
   scan_has_controls tier_focused \<and> is_instance (elems tier_focused ! 1) \<and>
   (\<exists>es. onChange' 1 tier_focused = Inr (tier_focused\<lparr>elems := es\<rparr>) \<and>
      length es = 3 \<and> updateClasses' (elems tier_focused ! 1) = Inr (es ! 1))"
proof -
  let ?tb = "\<lparr>name_attr = Some ''tier'', form_owner = Some 0, checked = False, disabled = False,
            has_focus = True,
            ctl_listeners = [(''change'', OnChange), (''focus'', OnChange), (''blur'', OnBlur)]\<rparr>"
  have b: "btnElement' (elems tier_focused) 1 = Some ?tb"
    by (simp add: tier_focused_def tier_page_def upgraded_radio_markup btnElement'_def
        element'_def set_focus_def)
  have s: "scan_has_controls tier_focused"
    by (simp add: scan_has_controls_def tier_focused_def tier_page_def upgraded_radio_markup
        getElementsByClassName_def set_focus_def classList_defs css_defs upt_rec)
  have n: "is_instance (elems tier_focused ! 1)"
    by (simp add: is_instance_def tier_focused_def tier_page_def upgraded_radio_markup
        set_focus_def classList_defs css_defs)
  have l: "length (elems tier_focused) = 3"
    by (simp add: tier_focused_def tier_page_def)
  from onChange_resyncs_same_name [OF b s] b s n l show ?thesis
    by auto
qed

text \<open>
  C1, as the claim states it, fails where the name attribute is shared and the radio
  button group of the browser is not. On \<open>two_forms_page\<close> the two instances have
  controls named \<^verbatim>\<open>tier\<close> in two forms and the first shows the checked class;
  \<^verbatim>\<open>check\<close> on the second leaves the first control checked, and both instances show
  the checked class.
\<close>

theorem check_two_forms_counterexample:
  "name_group two_forms_page (Some ''tier'') = [0, 1] \<and>
   check 1 two_forms_page = Inr two_forms_checked \<and>
   showing_checked two_forms_checked (name_group two_forms_page (Some ''tier'')) = [0, 1]"
proof -
  have g: "name_group two_forms_page (Some ''tier'') = [0, 1]"
    by (simp add: name_group_def two_forms_page_def upgraded_radio_markup is_instance_def
        control_name_def classList_defs css_defs upt_rec)
  have c: "check 1 two_forms_page = Inr two_forms_checked"
    by (simp add: two_forms_page_def two_forms_checked_def upgraded_radio_markup
        check_def btnElement'_def element'_def set_checked_def assign_checked_def
        same_radio_group_def onChange'_def getElementsByClassName_def classList_defs css_defs
        upt_rec updateClasses'_def checkDisabled_def checkToggleState_def)
      auto
  have s: "showing_checked two_forms_checked [0, 1] = [0, 1]"
    by (simp add: showing_checked_def two_forms_checked_def upgraded_radio_markup
        classList_defs css_defs)
  from g c s show ?thesis by simp
qed

text \<open>
  C1, amended. Take the instances whose controls have the same name attribute, not
  empty, and the same form owner, so that the controls are one radio button group.
  When \<^verbatim>\<open>check\<close> on one instance \<open>i\<close> of them returns, \<open>i\<close> is the one
  instance of them that shows the checked class; and \<^verbatim>\<open>check\<close> does return on a
  page where every element with the marker class contains a control. A change event at
  the control of \<open>i\<close>, after the browser has checked it, gives the same page when
  \<^verbatim>\<open>onChange_\<close> is the listener of \<^verbatim>\<open>change\<close>.
\<close>

theorem check_exclusive_in_radio_group:
  assumes n: "n \<noteq> []" and i: "i \<in> set (form_name_group p f n)"
  shows "(scan_has_controls p \<longrightarrow> (\<exists>p'. check i p = Inr p')) \<and>
    (\<forall>p'. check i p = Inr p' \<longrightarrow>
       showing_checked p' (form_name_group p f n) = [i] \<and>
       (\<forall>b. btnElement' (elems p) i = Some b \<and>
             listeners_for ''change'' (ctl_listeners b) = [OnChange] \<longrightarrow>
             change_event i True p = Inr p'))"
proof (rule conjI)
  show "scan_has_controls p \<longrightarrow> (\<exists>p'. check i p = Inr p')"
    using check_exclusive_aux [OF _ n i] by blast
next
  show "\<forall>p'. check i p = Inr p' \<longrightarrow>
       showing_checked p' (form_name_group p f n) = [i] \<and>
       (\<forall>b. btnElement' (elems p) i = Some b \<and>
             listeners_for ''change'' (ctl_listeners b) = [OnChange] \<longrightarrow>
             change_event i True p = Inr p')"
  proof (rule allI, rule impI)
    fix p' assume r: "check i p = Inr p'"
    then have "onChange' i (p\<lparr>elems := set_checked i True (elems p)\<rparr>) = Inr p'"
      by (simp add: check_def split: option.splits)
    then have "scan_has_controls p"
      using onChange_Inr_scan scan_has_controls_set_checked by blast
    from check_exclusive_aux [OF this n i] r
    show "showing_checked p' (form_name_group p f n) = [i] \<and>
       (\<forall>b. btnElement' (elems p) i = Some b \<and>
             listeners_for ''change'' (ctl_listeners b) = [OnChange] \<longrightarrow>
             change_event i True p = Inr p')"
      by auto
  qed
qed

theorem check_exclusive_in_radio_group_witness:
  "scan_has_controls tier_page \<and> form_name_group tier_page (Some 0) ''tier'' = [0, 1, 2] \<and>
   (\<exists>p'. check 1 tier_page = Inr p' \<and>
      showing_checked p' (form_name_group tier_page (Some 0) ''tier'') = [1] \<and>
      change_event 1 True tier_page = Inr p')"
proof -
  have s: "scan_has_controls tier_page"
    by (simp add: scan_has_controls_def tier_page_def upgraded_radio_markup
        getElementsByClassName_def classList_defs css_defs upt_rec)
  have g: "form_name_group tier_page (Some 0) ''tier'' = [0, 1, 2]"
    by (simp add: form_name_group_def name_group_def tier_page_def upgraded_radio_markup
        is_instance_def control_name_def control_form_def classList_defs css_defs upt_rec)
  have n: "''tier'' \<noteq> []" by simp
  have i: "1 \<in> set (form_name_group tier_page (Some 0) ''tier'')" by (simp add: g)
  have b: "btnElement' (elems tier_page) 1 =
     Some \<lparr>name_attr = Some ''tier'', form_owner = Some 0, checked = False, disabled = False,
            has_focus = False,
            ctl_listeners = [(''change'', OnChange), (''focus'', OnChange), (''blur'', OnBlur)]\<rparr>"
    by (simp add: tier_page_def upgraded_radio_markup btnElement'_def element'_def)
  from check_exclusive_in_radio_group [OF n i] s g b show ?thesis
    by (auto simp: listeners_for_def)
qed

text \<open>
  C5. On an instance whose control has \<^verbatim>\<open>onChange_\<close> as its one listener of
  \<^verbatim>\<open>change\<close> (so \<^verbatim>\<open>init\<close> leaves it), \<^verbatim>\<open>check\<close> and \<^verbatim>\<open>uncheck\<close> write the
  checked property of the control and then give the page that a change event at the
  control gives once the browser has set the same checkedness: the two results are the
  same page, or the same exception.
\<close>

theorem check_is_change_event:
  assumes "btnElement' (elems p) i = Some b"
    and "listeners_for ''change'' (ctl_listeners b) = [OnChange]"
  shows "check i p = onChange' i (p\<lparr>elems := set_checked i True (elems p)\<rparr>) \<and>
     uncheck i p = onChange' i (p\<lparr>elems := set_checked i False (elems p)\<rparr>) \<and>
     btnElement' (set_checked i v (elems p)) i = Some (b\<lparr>checked := v\<rparr>) \<and>
     check i p = change_event i True p \<and>
     uncheck i p = change_event i False p"
  using assms btnElement_set_checked [OF assms(1)]
  by (simp add: check_def uncheck_def change_event_def dispatch_button_def run_single_OnChange
      del: run_listeners.simps)

theorem check_is_change_event_witness:
  "btnElement' (elems tier_page) 2 =
     Some \<lparr>name_attr = Some ''tier'', form_owner = Some 0, checked = False, disabled = False,
            has_focus = False,
            ctl_listeners = [(''change'', OnChange), (''focus'', OnChange), (''blur'', OnBlur)]\<rparr> \<and>
   check 2 tier_page = change_event 2 True tier_page \<and>
   uncheck 2 tier_page = change_event 2 False tier_page"
proof -
  let ?b = "\<lparr>name_attr = Some ''tier'', form_owner = Some 0, checked = False, disabled = False,
            has_focus = False,
            ctl_listeners = [(''change'', OnChange), (''focus'', OnChange), (''blur'', OnBlur)]\<rparr>"
  have b: "btnElement' (elems tier_page) 2 = Some ?b"
    by (simp add: tier_page_def upgraded_radio_markup btnElement'_def element'_def)
  have l: "listeners_for ''change'' (ctl_listeners ?b) = [OnChange]"
    by (simp add: listeners_for_def)
  from check_is_change_event [OF b l, where v = True] b show ?thesis by blast
qed

subsection \<open>Initialisation\<close>

text \<open>
  C7. \<^verbatim>\<open>init\<close> of an instance whose element is absent returns the page as it is:
  nothing is changed, no listener is added, nothing is thrown. On an element that is
  present and contains a control, \<^verbatim>\<open>init\<close> returns and changes that element only:
  the control gets the listeners of \<^verbatim>\<open>change\<close>, \<^verbatim>\<open>focus\<close> and \<^verbatim>\<open>blur\<close>,
  the element the listener of \<^verbatim>\<open>mouseup\<close>; the outer and the inner circle are
  appended, and after them the ripple container exactly when the element carries the
  ripple-effect class; the disabled and the checked class mirror the control; and the
  upgraded class is there.
\<close>

theorem init_absent_or_present:
  "(element' (elems p) i = None \<longrightarrow> init i p = Inr p) \<and>
   (element' (elems p) i = Some e \<and> button e = Some b \<longrightarrow>
      (\<exists>e'. init i p = Inr (p\<lparr>elems := (elems p)[i := e']\<rparr>) \<and>
         button e' = Some (b\<lparr>ctl_listeners := ctl_listeners b @
            [(''change'', OnChange), (''focus'', OnChange), (''blur'', OnBlur)]\<rparr>) \<and>
         listeners e' = listeners e @ [(''mouseup'', OnMouseup)] \<and>
         children e' = children e @
            [Span [RADIO_OUTER_CIRCLE] [] [], Span [RADIO_INNER_CIRCLE] [] []] @
            (if classList_contains RIPPLE_EFFECT (classList e)
             then [Span [RIPPLE_CONTAINER, RIPPLE_EFFECT, RIPPLE_CENTER]
                     [(''mouseup'', OnMouseup)] [Span [RIPPLE] [] []]]
             else []) \<and>
         classList_contains IS_DISABLED (classList e') = disabled b \<and>
         classList_contains IS_CHECKED (classList e') = checked b \<and>
         classList_contains IS_UPGRADED (classList e') \<and>
         MaterialRadio e' = MaterialRadio e))"
proof (intro conjI impI)
  assume "element' (elems p) i = None"
  then show "init i p = Inr p" by (simp add: init_def)
next
  assume a: "element' (elems p) i = Some e \<and> button e = Some b"
  let ?b' = "b\<lparr>ctl_listeners := ctl_listeners b @
            [(''change'', OnChange), (''focus'', OnChange), (''blur'', OnBlur)]\<rparr>"
  let ?ks = "children e @
            [Span [RADIO_OUTER_CIRCLE] [] [], Span [RADIO_INNER_CIRCLE] [] []] @
            (if classList_contains RIPPLE_EFFECT (classList e)
             then [Span [RIPPLE_CONTAINER, RIPPLE_EFFECT, RIPPLE_CENTER]
                     [(''mouseup'', OnMouseup)] [Span [RIPPLE] [] []]]
             else [])"
  let ?e3 = "e\<lparr>classList := (if classList_contains RIPPLE_EFFECT (classList e)
                              then classList_add RIPPLE_IGNORE_EVENTS (classList e)
                              else classList e),
                children := ?ks, button := Some ?b',
                listeners := listeners e @ [(''mouseup'', OnMouseup)]\<rparr>"
  have rc: "rippleContainer OnMouseup =
      Span [RIPPLE_CONTAINER, RIPPLE_EFFECT, RIPPLE_CENTER]
        [(''mouseup'', OnMouseup)] [Span [RIPPLE] [] []]"
    by (simp add: rippleContainer_def span_add_def span_addEventListener_def
        span_appendChild_def createElement_def css_defs)
  have be3: "button ?e3 = Some ?b'" by simp
  obtain e4 where e4: "updateClasses' ?e3 = Inr e4"
    using updateClasses_Some [OF be3] by blast
  have ie: "init_element e = Inr (e4\<lparr>classList := classList_add IS_UPGRADED (classList e4)\<rparr>)"
  proof (cases "classList_contains RIPPLE_EFFECT (classList e)")
    case True
    with a e4 show ?thesis
      by (simp add: init_element_def Let_def appendChild_def rc span_add_def createElement_def)
  next
    case False
    with a e4 show ?thesis
      by (simp add: init_element_def Let_def appendChild_def rc span_add_def createElement_def)
  qed
  let ?e' = "e4\<lparr>classList := classList_add IS_UPGRADED (classList e4)\<rparr>"
  have "init i p = Inr (p\<lparr>elems := (elems p)[i := ?e']\<rparr>)"
    using a ie by (simp add: init_def)
  moreover have "button ?e' = Some ?b'" "listeners ?e' = listeners e @ [(''mouseup'', OnMouseup)]"
    "children ?e' = ?ks" "MaterialRadio ?e' = MaterialRadio e"
    using updateClasses_frame [OF e4] by simp_all
  moreover have "classList_contains IS_DISABLED (classList ?e') = disabled b"
    "classList_contains IS_CHECKED (classList ?e') = checked b"
    "classList_contains IS_UPGRADED (classList ?e')"
    using updateClasses_checked [OF e4 be3] by (simp_all add: classList_defs css_defs)
  ultimately show "\<exists>e'. init i p = Inr (p\<lparr>elems := (elems p)[i := e']\<rparr>) \<and>
         button e' = Some ?b' \<and>
         listeners e' = listeners e @ [(''mouseup'', OnMouseup)] \<and>
         children e' = ?ks \<and>
         classList_contains IS_DISABLED (classList e') = disabled b \<and>
         classList_contains IS_CHECKED (classList e') = checked b \<and>
         classList_contains IS_UPGRADED (classList e') \<and>
         MaterialRadio e' = MaterialRadio e"
    by blast
qed

theorem init_absent_or_present_witness:
  "element' (elems markup_page) 1 = None \<and> init 1 markup_page = Inr markup_page \<and>
   element' (elems markup_page) 0 = Some ripple_markup \<and>
   classList_contains RIPPLE_EFFECT (classList ripple_markup) \<and>
   (\<exists>e'. init 0 markup_page = Inr (markup_page\<lparr>elems := (elems markup_page)[0 := e']\<rparr>) \<and>
      listeners e' = [(''mouseup'', OnMouseup)] \<and>
      children e' =
        [Span [RADIO_OUTER_CIRCLE] [] [], Span [RADIO_INNER_CIRCLE] [] [],
         Span [RIPPLE_CONTAINER, RIPPLE_EFFECT, RIPPLE_CENTER]
           [(''mouseup'', OnMouseup)] [Span [RIPPLE] [] []]] \<and>
      classList_contains IS_CHECKED (classList e') \<and>
      \<not> classList_contains IS_DISABLED (classList e') \<and>
      classList_contains IS_UPGRADED (classList e'))"
proof -
  let ?b = "\<lparr>name_attr = Some ''tier'', form_owner = Some 0, checked = True,
             disabled = False, has_focus = False, ctl_listeners = []\<rparr>"
  have n: "element' (elems markup_page) 1 = None"
    by (simp add: markup_page_def element'_def)
  have s: "element' (elems markup_page) 0 = Some ripple_markup \<and> button ripple_markup = Some ?b"
    by (simp add: markup_page_def element'_def ripple_markup_def)
  have r: "classList_contains RIPPLE_EFFECT (classList ripple_markup)"
    by (simp add: ripple_markup_def classList_defs css_defs)
  have k: "children ripple_markup = []" "listeners ripple_markup = []"
    by (simp_all add: ripple_markup_def)
  from init_absent_or_present [of markup_page 1 ripple_markup ?b] n
  have a: "init 1 markup_page = Inr markup_page" by simp
  from init_absent_or_present [of markup_page 0 ripple_markup ?b] s r k
  have "\<exists>e'. init 0 markup_page = Inr (markup_page\<lparr>elems := (elems markup_page)[0 := e']\<rparr>) \<and>
      listeners e' = [(''mouseup'', OnMouseup)] \<and>
      children e' =
        [Span [RADIO_OUTER_CIRCLE] [] [], Span [RADIO_INNER_CIRCLE] [] [],
         Span [RIPPLE_CONTAINER, RIPPLE_EFFECT, RIPPLE_CENTER]
           [(''mouseup'', OnMouseup)] [Span [RIPPLE] [] []]] \<and>
      classList_contains IS_CHECKED (classList e') \<and>
      \<not> classList_contains IS_DISABLED (classList e') \<and>
      classList_contains IS_UPGRADED (classList e')"
    by auto
  with n a s r show ?thesis by simp
qed

subsection \<open>The deferred blur\<close>

text \<open>
  C8. Take an instance with \<^verbatim>\<open>onMouseup_\<close> as the listener of \<^verbatim>\<open>mouseup\<close> on
  its element and \<^verbatim>\<open>onBlur_\<close> as the listener of \<^verbatim>\<open>blur\<close> on its control. A
  \<^verbatim>\<open>mouseup\<close> at the element returns the page with every element as it was, so the
  control still has the focus, and with one call queued at the delay
  \<^verbatim>\<open>TINY_TIMEOUT\<close>, which lies between 0 and 1 millisecond; at the ripple
  container the listener of the container and, by bubbling, that of the element each
  queue one. The queued call runs when the event loop takes it from the queue, after
  the handler has returned, and it is then that a focused control is blurred. No
  function of the widget takes a call out of the queue: after any of them the queue
  starts with what it held before.
\<close>

theorem mouseup_defers_blur:
  assumes e: "element' (elems p) i = Some e" and b: "button e = Some b"
    and lm: "listeners_for ''mouseup'' (listeners e) = [OnMouseup]"
    and lb: "listeners_for ''blur'' (ctl_listeners b) = [OnBlur]"
  shows "dispatch_element ''mouseup'' i p = Inr (p\<lparr>timeouts := timeouts p @ [(TINY_TIMEOUT, i)]\<rparr>) \<and>
    (k < length (children e) \<and>
     listeners_for ''mouseup'' (span_listeners (children e ! k)) = [OnMouseup] \<longrightarrow>
       dispatch_child ''mouseup'' i k p =
         Inr (p\<lparr>timeouts := timeouts p @ [(TINY_TIMEOUT, i), (TINY_TIMEOUT, i)]\<rparr>)) \<and>
    0 < TINY_TIMEOUT \<and> TINY_TIMEOUT < 1 \<and>
    run_timeout (p\<lparr>timeouts := (TINY_TIMEOUT, i) # rest\<rparr>) = blur_button i (p\<lparr>timeouts := rest\<rparr>) \<and>
    (has_focus b \<longrightarrow>
       blur_button i p = Inr (p\<lparr>elems := (elems p)[i := onBlur' (set_focus False e)]\<rparr>)) \<and>
    (invoke m j p = Inr p' \<longrightarrow> take (length (timeouts p)) (timeouts p') = timeouts p)"
proof -
  have d: "\<And>q. elems q = elems p \<Longrightarrow>
      dispatch_element ''mouseup'' i q = Inr (q\<lparr>timeouts := timeouts q @ [(TINY_TIMEOUT, i)]\<rparr>)"
    using e lm by (simp add: dispatch_element_def onMouseup'_def blur'_def)
  have c: "dispatch_child ''mouseup'' i k p =
         Inr (p\<lparr>timeouts := timeouts p @ [(TINY_TIMEOUT, i), (TINY_TIMEOUT, i)]\<rparr>)"
    if "k < length (children e)"
      and "listeners_for ''mouseup'' (span_listeners (children e ! k)) = [OnMouseup]"
    using e that d [of "p\<lparr>timeouts := timeouts p @ [(TINY_TIMEOUT, i)]\<rparr>"]
    by (simp add: dispatch_child_def onMouseup'_def blur'_def)
  have t: "0 < TINY_TIMEOUT \<and> TINY_TIMEOUT < 1" by (simp add: TINY_TIMEOUT_def)
  have r: "run_timeout (p\<lparr>timeouts := (TINY_TIMEOUT, i) # rest\<rparr>) =
      blur_button i (p\<lparr>timeouts := rest\<rparr>)"
    by (simp add: run_timeout_def)
  from e have il: "i < length (elems p)" and ei: "elems p ! i = e"
    by (auto simp: element'_def split: if_splits)
  have f: "blur_button i p = Inr (p\<lparr>elems := (elems p)[i := onBlur' (set_focus False e)]\<rparr>)"
    if "has_focus b"
    using that e b lb il
    by (simp add: blur_button_def blur_event_def dispatch_button_def btnElement'_def
        element'_def set_focus_def on_instance_def)
  have n: "take (length (timeouts p)) (timeouts p') = timeouts p" if "invoke m j p = Inr p'"
    using invoke_timeouts [OF that] by auto
  from d [of p] c t r f n show ?thesis by blast
qed

theorem mouseup_defers_blur_witness:
  "dispatch_element ''mouseup'' 0 ripple_focused = Inr ripple_waiting \<and>
   elems ripple_waiting = elems ripple_focused \<and>
   dispatch_child ''mouseup'' 0 2 ripple_focused =
     Inr (ripple_focused\<lparr>timeouts := [(TINY_TIMEOUT, 0), (TINY_TIMEOUT, 0)]\<rparr>) \<and>
   run_timeout ripple_waiting = Inr ripple_page \<and>
   invoke (Bound OnMouseup) 0 ripple_waiting =
     Inr (ripple_waiting\<lparr>timeouts := [(TINY_TIMEOUT, 0), (TINY_TIMEOUT, 0)]\<rparr>) \<and>
   take (length (timeouts ripple_waiting)) [(TINY_TIMEOUT, 0), (TINY_TIMEOUT, 0)] =
     timeouts ripple_waiting"
proof -
  let ?b = "\<lparr>name_attr = Some ''tier'', form_owner = Some 0, checked = True, disabled = False,
            has_focus = True,
            ctl_listeners = [(''change'', OnChange), (''focus'', OnChange), (''blur'', OnBlur)]\<rparr>"
  let ?e = "set_focus True (upgraded ripple_markup)"
  let ?q2 = "ripple_waiting\<lparr>timeouts := [(TINY_TIMEOUT, 0), (TINY_TIMEOUT, 0)]\<rparr>"
  have e: "element' (elems ripple_focused) 0 = Some ?e"
    by (simp add: ripple_focused_def element'_def)
  have e2: "element' (elems ripple_waiting) 0 = Some ?e"
    by (simp add: ripple_waiting_def element'_def)
  have b: "button ?e = Some ?b"
    by (simp add: upgraded_ripple_markup set_focus_def)
  have lm: "listeners_for ''mouseup'' (listeners ?e) = [OnMouseup]"
    by (simp add: upgraded_ripple_markup set_focus_def listeners_for_def)
  have lb: "listeners_for ''blur'' (ctl_listeners ?b) = [OnBlur]"
    by (simp add: listeners_for_def)
  have k: "2 < length (children ?e) \<and>
     listeners_for ''mouseup'' (span_listeners (children ?e ! 2)) = [OnMouseup]"
    by (simp add: upgraded_ripple_markup set_focus_def listeners_for_def)
  have f: "has_focus ?b" by simp
  have w: "ripple_focused\<lparr>timeouts := timeouts ripple_focused @ [(TINY_TIMEOUT, 0)]\<rparr> =
      ripple_waiting"
    "ripple_focused\<lparr>timeouts := (TINY_TIMEOUT, 0) # []\<rparr> = ripple_waiting"
    "ripple_focused\<lparr>timeouts := []\<rparr> = ripple_focused"
    "timeouts ripple_focused = []" "timeouts ripple_waiting = [(TINY_TIMEOUT, 0)]"
    "elems ripple_waiting = elems ripple_focused"
    by (simp_all add: ripple_focused_def ripple_waiting_def)
  have z: "ripple_focused\<lparr>elems := (elems ripple_focused)[0 := onBlur' (set_focus False ?e)]\<rparr> =
      ripple_page"
    by (simp add: ripple_focused_def ripple_page_def upgraded_ripple_markup set_focus_def
        onBlur'_def classList_defs css_defs)
  have c: "invoke (Bound OnMouseup) 0 ripple_waiting = Inr ?q2"
    by (simp add: onMouseup'_def blur'_def w)
  from mouseup_defers_blur [OF e b lm lb, of 2 "[]" "Bound OnMouseup" 0 ripple_focused] k f
  have "dispatch_element ''mouseup'' 0 ripple_focused = Inr ripple_waiting"
    and "dispatch_child ''mouseup'' 0 2 ripple_focused =
     Inr (ripple_focused\<lparr>timeouts := [(TINY_TIMEOUT, 0), (TINY_TIMEOUT, 0)]\<rparr>)"
    and "run_timeout ripple_waiting = Inr ripple_page"
    by (simp_all add: w z)
  moreover from mouseup_defers_blur [OF e2 b lm lb, of 2 "[]" "Bound OnMouseup" 0 ?q2] c
  have "take (length (timeouts ripple_waiting)) [(TINY_TIMEOUT, 0), (TINY_TIMEOUT, 0)] =
     timeouts ripple_waiting"
    by simp
  ultimately show ?thesis using c w by simp
qed

section \<open>Properties of the document shell\<close>

text \<open>
  C9. In production mode a stylesheet load that throws is caught: the error is printed,
  \<^verbatim>\<open>stylesStr\<close> stays undefined and the document is rendered; its inlined style
  element then carries no stylesheet text, where after a successful load it carries the
  loaded text. Outside production mode the load is not attempted, nothing is printed
  and the head has no inlined style element at all. Whatever the mode and whatever the
  load did, the attributes of the document, the head up to the inlined style element
  (the fixed metadata, then the head components) and the body (the pre-body
  components, the mount point, the post-body components) are the same.
\<close>

theorem shell_stylesheet_guard:
  "build_document ''production'' (Inl err) props = (render ''production'' None props, [err]) \<and>
   build_document ''production'' (Inr css) props = (render ''production'' (Some css) props, []) \<and>
   (env \<noteq> ''production'' \<longrightarrow> build_document env req props = (render env None props, [])) \<and>
   children_of (head_of (render ''production'' styles props)) =
     head_metadata @ headComponents props @ [inlined_css styles] \<and>
   (env \<noteq> ''production'' \<longrightarrow>
     children_of (head_of (render env styles props)) = head_metadata @ headComponents props) \<and>
   body_of (render env styles props) = body_of (render env' styles' props) \<and>
   props_of (render env styles props) = props_of (render env' styles' props) \<and>
   length (children_of (render env styles props)) = 2"
  by (simp add: build_document_def stylesStr_def render_def Let_def head_of_def body_of_def
      inlined_css_def)

theorem shell_stylesheet_guard_witness:
  "build_document ''production'' (Inl ''Cannot find module'') example_props =
     (render ''production'' None example_props, [''Cannot find module'']) \<and>
   children_of (head_of (render ''production'' None example_props)) =
     head_metadata @ [Tag ''title'' [] [], inlined_css None] \<and>
   build_document ''development'' (Inl ''Cannot find module'') example_props =
     (render ''development'' None example_props, []) \<and>
   children_of (head_of (render ''development'' None example_props)) =
     head_metadata @ [Tag ''title'' [] []] \<and>
   body_of (render ''production'' None example_props) =
     body_of (render ''production'' (Some ''body{margin:0}'') example_props)"
proof -
  have d: "''development'' \<noteq> ''production''" by simp
  have h: "headComponents example_props = [Tag ''title'' [] []]"
    by (simp add: example_props_def)
  from shell_stylesheet_guard [of "''Cannot find module''" example_props "''body{margin:0}''"
      "''development''" "Inl ''Cannot find module''" None "''production''" None] d h
  have "build_document ''production'' (Inl ''Cannot find module'') example_props =
     (render ''production'' None example_props, [''Cannot find module''])"
    and "children_of (head_of (render ''production'' None example_props)) =
     head_metadata @ [Tag ''title'' [] [], inlined_css None]"
    and "build_document ''development'' (Inl ''Cannot find module'') example_props =
     (render ''development'' None example_props, [])"
    and "children_of (head_of (render ''development'' None example_props)) =
     head_metadata @ [Tag ''title'' [] []]"
    by simp_all
  moreover from shell_stylesheet_guard [of "''Cannot find module''" example_props "''body{margin:0}''"
      "''production''" "Inl ''Cannot find module''" None "''production''" "Some ''body{margin:0}''"]
  have "body_of (render ''production'' None example_props) =
     body_of (render ''production'' (Some ''body{margin:0}'') example_props)"
    by blast
  ultimately show ?thesis by blast
qed

end
